theory Spec2Isabelle
  imports Main
begin

section \<open>Data model\<close>

text \<open>
  The settlement code of \<^verbatim>\<open>src/services/payment.ts\<close> works on three collections of a
  document store: users, accounts and transactions
  (\<^verbatim>\<open>src/collections/Accounts/config.ts\<close>, \<^verbatim>\<open>src/collections/Transactions/config.ts\<close>
  and the users collection). Document ids are strings (the store is MongoDB). A relationship
  field holds either the bare id of the related document or the related document itself,
  which is what \<^verbatim>\<open>getInstance\<close> tests with \<^verbatim>\<open>typeof maybeInstance === "string"\<close>.

  Monetary numbers (\<^verbatim>\<open>balance\<close>, \<^verbatim>\<open>amount\<close>) are modelled as unbounded integers; both
  are taken as present, as the source asserts with \<^verbatim>\<open>!\<close>. The source's numbers are
  floating-point doubles, whose sums and differences are rounded. A statement about a balance
  therefore names the additions and subtractions the code performs, in the code's order, and
  none rearranges them: \<open>(b + a) - a\<close> is written as such and not as \<open>b\<close>.
\<close>

type_synonym ident = string

datatype 'a ref = Id ident | Doc 'a

record account =
  acc_id :: ident
  owner :: ident
  provider :: "string list"
  balance :: int

text \<open>Of a user only the fields the settlement code reads are kept.\<close>

record user =
  user_id :: ident
  email :: string
  preferredAccount :: "account ref option"

datatype status = requested | pending | rejected | accepted

text \<open>
  The field \<^verbatim>\<open>to\<close> is optional (\<open>None\<close> stands for \<^verbatim>\<open>null\<close> and \<^verbatim>\<open>undefined\<close>);
  \<^verbatim>\<open>from\<close> and \<^verbatim>\<open>receiver\<close> are required.
\<close>

record transaction =
  tx_id :: ident
  sender :: "user ref"
  tx_from :: "account ref"
  receiver :: "user ref"
  tx_to :: "account ref option"
  amount :: int
  status :: status

record store =
  users :: "user list"
  accounts :: "account list"
  transactions :: "transaction list"


section \<open>The store interface\<close>

text \<open>
  The calls the code makes on the store: \<^verbatim>\<open>payload.findByID\<close>, \<^verbatim>\<open>payload.find\<close> with one
  equality filter, and \<^verbatim>\<open>payload.update\<close> by id. Each call is recorded, in order, so that
  statements about which reads and writes happen can be made.
\<close>

datatype collection = Users | Accounts | Transactions

datatype data = Balance int | Status status

datatype call =
    FindByID collection ident
  | Find collection string string
  | Update collection ident data

datatype error = NotFound | TypeError | Error string

datatype response = Response "string option" nat

text \<open>
  The state a call runs in: the store, the transaction object the caller passed (an object
  shared with the caller, which \<^verbatim>\<open>initiateTransaction\<close> assigns to), and the calls made so far.
\<close>

record world =
  db :: store
  arg :: transaction
  calls :: "call list"

type_synonym 'a action = "world \<Rightarrow> (error + 'a) \<times> world"

definition ret :: "'a \<Rightarrow> 'a action" where
  "ret x w = (Inr x, w)"

definition throw :: "error \<Rightarrow> 'a action" where
  "throw e w = (Inl e, w)"

definition bnd :: "'a action \<Rightarrow> ('a \<Rightarrow> 'b action) \<Rightarrow> 'b action" where
  "bnd m f w = (case m w of (Inl e, w') \<Rightarrow> (Inl e, w') | (Inr x, w') \<Rightarrow> f x w')"

definition record_call :: "call \<Rightarrow> unit action" where
  "record_call c w = (Inr (), w\<lparr>calls := calls w @ [c]\<rparr>)"

subsection \<open>Queries and updates on a store\<close>

definition findByID_account :: "ident \<Rightarrow> store \<Rightarrow> account option" where
  "findByID_account i s = find (\<lambda>a. acc_id a = i) (accounts s)"

definition findByID_user :: "ident \<Rightarrow> store \<Rightarrow> user option" where
  "findByID_user i s = find (\<lambda>u. user_id u = i) (users s)"

definition findByID_transaction :: "ident \<Rightarrow> store \<Rightarrow> transaction option" where
  "findByID_transaction i s = find (\<lambda>t. tx_id t = i) (transactions s)"

text \<open>
  \<^verbatim>\<open>where: {owner: {equals: u}}\<close> and \<^verbatim>\<open>where: {email: {equals: e}}\<close>: the matching
  documents in the store's order. The code reads only \<^verbatim>\<open>docs.length === 0\<close> and
  \<^verbatim>\<open>docs[0]\<close> of a result, so a page limit of the store would not show.
\<close>

definition find_accounts_owner :: "ident \<Rightarrow> store \<Rightarrow> account list" where
  "find_accounts_owner u s = filter (\<lambda>a. owner a = u) (accounts s)"

definition find_users_email :: "string \<Rightarrow> store \<Rightarrow> user list" where
  "find_users_email e s = filter (\<lambda>u. email u = e) (users s)"

text \<open>
  An update by id fails when no document has the id. The \<^verbatim>\<open>beforeValidate\<close> hook of the
  \<^verbatim>\<open>balance\<close> field replaces the value on \<^verbatim>\<open>create\<close> only, so an update stores the
  value it is given. A list may hold several documents with one id; stores of interest have
  unique ids, where looking up the first and updating all of them is looking up and updating
  the one.
\<close>

definition update_account_balance :: "ident \<Rightarrow> int \<Rightarrow> store \<Rightarrow> store option" where
  "update_account_balance i v s =
     (case findByID_account i s of
        None \<Rightarrow> None
      | Some _ \<Rightarrow>
          Some (s\<lparr>accounts := map (\<lambda>a. if acc_id a = i then a\<lparr>balance := v\<rparr> else a) (accounts s)\<rparr>))"

definition update_transaction_status :: "ident \<Rightarrow> status \<Rightarrow> store \<Rightarrow> store option" where
  "update_transaction_status i v s =
     (case findByID_transaction i s of
        None \<Rightarrow> None
      | Some _ \<Rightarrow>
          Some (s\<lparr>transactions :=
                    map (\<lambda>t. if tx_id t = i then t\<lparr>status := v\<rparr> else t) (transactions s)\<rparr>))"

subsection \<open>The calls as actions\<close>

text \<open>
  A read returns a document as the store holds it. At the default depth the store's reads
  return a relationship field of a document as the related document read at that moment; a
  store whose users hold their \<^verbatim>\<open>preferredAccount\<close> as the stored account gives these
  reads.
\<close>

definition payload_findByID_accounts :: "ident \<Rightarrow> account action" where
  "payload_findByID_accounts i =
     bnd (record_call (FindByID Accounts i)) (\<lambda>_ w.
       case findByID_account i (db w) of None \<Rightarrow> throw NotFound w | Some a \<Rightarrow> ret a w)"

definition payload_findByID_users :: "ident \<Rightarrow> user action" where
  "payload_findByID_users i =
     bnd (record_call (FindByID Users i)) (\<lambda>_ w.
       case findByID_user i (db w) of None \<Rightarrow> throw NotFound w | Some u \<Rightarrow> ret u w)"

definition payload_find_accounts_owner :: "ident \<Rightarrow> account list action" where
  "payload_find_accounts_owner u =
     bnd (record_call (Find Accounts ''owner'' u)) (\<lambda>_ w. ret (find_accounts_owner u (db w)) w)"

definition payload_find_users_email :: "string \<Rightarrow> user list action" where
  "payload_find_users_email e =
     bnd (record_call (Find Users ''email'' e)) (\<lambda>_ w. ret (find_users_email e (db w)) w)"

definition payload_update_accounts_balance :: "ident \<Rightarrow> int \<Rightarrow> unit action" where
  "payload_update_accounts_balance i v =
     bnd (record_call (Update Accounts i (Balance v))) (\<lambda>_ w.
       case update_account_balance i v (db w) of
         None \<Rightarrow> throw NotFound w
       | Some s' \<Rightarrow> ret () (w\<lparr>db := s'\<rparr>))"

definition payload_update_transactions_status :: "ident \<Rightarrow> status \<Rightarrow> unit action" where
  "payload_update_transactions_status i v =
     bnd (record_call (Update Transactions i (Status v))) (\<lambda>_ w.
       case update_transaction_status i v (db w) of
         None \<Rightarrow> throw NotFound w
       | Some s' \<Rightarrow> ret () (w\<lparr>db := s'\<rparr>))"


section \<open>The settlement code\<close>

text \<open>
  \<^verbatim>\<open>getInstance\<close>: a string is looked up by id in the given collection, anything else is
  returned as it is. The second form is the same function on an optional field, where
  \<^verbatim>\<open>null\<close> and \<^verbatim>\<open>undefined\<close> are not strings and are returned as they are.
\<close>

definition getInstance :: "'a ref \<Rightarrow> (ident \<Rightarrow> 'a action) \<Rightarrow> 'a action" where
  "getInstance maybeInstance findByID =
     (case maybeInstance of Id i \<Rightarrow> findByID i | Doc d \<Rightarrow> ret d)"

definition getInstance_nullable :: "'a ref option \<Rightarrow> (ident \<Rightarrow> 'a action) \<Rightarrow> 'a option action" where
  "getInstance_nullable maybeInstance findByID =
     (case maybeInstance of
        None \<Rightarrow> ret None
      | Some r \<Rightarrow> bnd (getInstance r findByID) (\<lambda>d. ret (Some d)))"

text \<open>\<^verbatim>\<open>docs[0]\<close> is \<^verbatim>\<open>undefined\<close> on an empty result.\<close>

definition docs0 :: "'a list \<Rightarrow> 'a option" where
  "docs0 docs = (case docs of [] \<Rightarrow> None | d # _ \<Rightarrow> Some d)"

text \<open>The truth value of an optional relationship field: an object, or a non-empty string.\<close>

fun truthy :: "'a ref option \<Rightarrow> bool" where
  "truthy None = False"
| "truthy (Some (Id i)) = (i \<noteq> [])"
| "truthy (Some (Doc d)) = True"

text \<open>The assignment \<^verbatim>\<open>transaction.to = ...\<close> on the caller's object.\<close>

definition assign_to :: "account ref option \<Rightarrow> unit action" where
  "assign_to r w = (Inr (), w\<lparr>arg := (arg w)\<lparr>tx_to := r\<rparr>\<rparr>)"

definition admin_email :: string where
  "admin_email = ''admin@glix.com''"

definition initiateTransaction :: "transaction \<Rightarrow> store \<Rightarrow> (error + response) \<times> world" where
  "initiateTransaction transaction s =
    (bnd (getInstance (tx_from transaction) payload_findByID_accounts) (\<lambda>from.
     bnd (getInstance (receiver transaction) payload_findByID_users) (\<lambda>receiver.
     bnd (payload_find_accounts_owner (user_id receiver)) (\<lambda>receiverAccounts.
     if balance from < amount transaction \<or> length receiverAccounts = 0 then
       bnd (payload_update_transactions_status (tx_id transaction) rejected) (\<lambda>_.
       ret (Response (Some ''Transaction rejected'') 400))
     else
       bnd (if truthy (preferredAccount receiver)
            then assign_to (preferredAccount receiver)
            else assign_to (map_option Doc (docs0 receiverAccounts))) (\<lambda>_.
       bnd (payload_find_users_email admin_email) (\<lambda>adminUsers.
       case docs0 adminUsers of
         None \<Rightarrow> throw TypeError
       | Some adminUser \<Rightarrow>
       bnd (payload_find_accounts_owner (user_id adminUser)) (\<lambda>adminAccounts.
       case docs0 adminAccounts of
         None \<Rightarrow> throw TypeError
       | Some adminAccount \<Rightarrow>
       bnd (payload_update_accounts_balance (acc_id adminAccount)
              (balance adminAccount + amount transaction)) (\<lambda>_.
       bnd (payload_update_accounts_balance (acc_id from)
              (balance from - amount transaction)) (\<lambda>_.
       ret (Response None 200))))))))))
    \<lparr>db = s, arg = transaction, calls = []\<rparr>"

definition completeTransaction :: "transaction \<Rightarrow> store \<Rightarrow> (error + response) \<times> world" where
  "completeTransaction transaction s =
    (bnd (getInstance_nullable (tx_to transaction) payload_findByID_accounts) (\<lambda>to.
     case to of
       None \<Rightarrow> throw (Error ''Target account not found'')
     | Some to \<Rightarrow>
     bnd (payload_find_users_email admin_email) (\<lambda>adminUserQuery.
     case docs0 adminUserQuery of
       None \<Rightarrow> throw (Error ''Admin user not found'')
     | Some adminUser \<Rightarrow>
     bnd (payload_find_accounts_owner (user_id adminUser)) (\<lambda>adminAccountQuery.
     case docs0 adminAccountQuery of
       None \<Rightarrow> throw (Error ''Admin account not found'')
     | Some adminAccount \<Rightarrow>
     bnd (payload_update_accounts_balance (acc_id adminAccount)
            (balance adminAccount - amount transaction)) (\<lambda>_.
     bnd (payload_update_accounts_balance (acc_id to)
            (balance to + amount transaction)) (\<lambda>_.
     ret (Response None 200)))))))
    \<lparr>db = s, arg = transaction, calls = []\<rparr>"


section \<open>What a call does, read off the store\<close>

text \<open>
  The same steps without the bookkeeping of calls: what \<^verbatim>\<open>getInstance\<close> yields on a
  store, the clearing account that both operations look up (the first account owned by the
  first user with the admin email), the destination \<^verbatim>\<open>initiateTransaction\<close> chooses, and
  the calls a reference costs.
\<close>

definition resolve_account :: "account ref \<Rightarrow> store \<Rightarrow> account option" where
  "resolve_account r s = (case r of Id i \<Rightarrow> findByID_account i s | Doc a \<Rightarrow> Some a)"

definition resolve_user :: "user ref \<Rightarrow> store \<Rightarrow> user option" where
  "resolve_user r s = (case r of Id i \<Rightarrow> findByID_user i s | Doc u \<Rightarrow> Some u)"

definition resolve_to :: "account ref option \<Rightarrow> store \<Rightarrow> account option" where
  "resolve_to r s = (case r of None \<Rightarrow> None | Some r' \<Rightarrow> resolve_account r' s)"

definition clearing_account :: "store \<Rightarrow> account option" where
  "clearing_account s =
     (case docs0 (find_users_email admin_email s) of
        None \<Rightarrow> None
      | Some adminUser \<Rightarrow> docs0 (find_accounts_owner (user_id adminUser) s))"

definition destination :: "user \<Rightarrow> account list \<Rightarrow> account ref option" where
  "destination rcv receiverAccounts =
     (if truthy (preferredAccount rcv) then preferredAccount rcv
      else map_option Doc (docs0 receiverAccounts))"

definition ref_calls :: "collection \<Rightarrow> 'a ref \<Rightarrow> call list" where
  "ref_calls c r = (case r of Id i \<Rightarrow> [FindByID c i] | Doc _ \<Rightarrow> [])"

definition balance_of :: "ident \<Rightarrow> store \<Rightarrow> int option" where
  "balance_of i s = map_option balance (findByID_account i s)"

definition status_of :: "ident \<Rightarrow> store \<Rightarrow> status option" where
  "status_of i s = map_option status (findByID_transaction i s)"

fun is_write :: "call \<Rightarrow> bool" where
  "is_write (Update _ _ _) = True"
| "is_write _ = False"

definition writes :: "call list \<Rightarrow> call list" where
  "writes cs = filter is_write cs"

definition ok :: response where
  "ok = Response None 200"

definition rejection :: response where
  "rejection = Response (Some ''Transaction rejected'') 400"

text \<open>The rejection test of \<^verbatim>\<open>initiateTransaction\<close>, on the resolved source and receiver.\<close>

definition rejects :: "account \<Rightarrow> user \<Rightarrow> transaction \<Rightarrow> store \<Rightarrow> bool" where
  "rejects from rcv t s \<longleftrightarrow>
     balance from < amount t \<or> length (find_accounts_owner (user_id rcv) s) = 0"


text \<open>Which collection a call writes to.\<close>

fun writes_to :: "collection \<Rightarrow> call \<Rightarrow> bool" where
  "writes_to c (Update c' _ _) = (c = c')"
| "writes_to c _ = False"

text \<open>
  A call has aborted before any mutation: it ended in an error, the store is the one it
  started from and no write was issued.
\<close>

definition aborted :: "(error + response) \<times> world \<Rightarrow> store \<Rightarrow> bool" where
  "aborted r s =
     (case fst r of
        Inl e \<Rightarrow> db (snd r) = s \<and> writes (calls (snd r)) = []
      | Inr _ \<Rightarrow> False)"


section \<open>An example store\<close>

text \<open>
  Three users, one account each. The admin user owns the clearing account; Bob and the
  admin have a preferred account, Alice has none. Two transactions: Alice sends 400 to Bob,
  Bob sends 100 to Alice.
\<close>

definition admin_user :: user where
  "admin_user = \<lparr>user_id = ''u_admin'', email = ''admin@glix.com'',
                  preferredAccount = Some (Id ''a_admin'')\<rparr>"

definition alice :: user where
  "alice = \<lparr>user_id = ''u_alice'', email = ''alice@glix.com'', preferredAccount = None\<rparr>"

definition bob :: user where
  "bob = \<lparr>user_id = ''u_bob'', email = ''bob@glix.com'', preferredAccount = Some (Id ''a_bob'')\<rparr>"

definition admin_acc :: account where
  "admin_acc = \<lparr>acc_id = ''a_admin'', owner = ''u_admin'', provider = [''stripe''], balance = 5000\<rparr>"

definition alice_acc :: account where
  "alice_acc = \<lparr>acc_id = ''a_alice'', owner = ''u_alice'', provider = [''stripe''], balance = 1000\<rparr>"

definition bob_acc :: account where
  "bob_acc = \<lparr>acc_id = ''a_bob'', owner = ''u_bob'', provider = [''paypal''], balance = 250\<rparr>"

definition transfer :: transaction where
  "transfer = \<lparr>tx_id = ''tx1'', sender = Id ''u_alice'', tx_from = Id ''a_alice'',
                receiver = Id ''u_bob'', tx_to = None, amount = 400, status = requested\<rparr>"

definition refund :: transaction where
  "refund = \<lparr>tx_id = ''tx2'', sender = Id ''u_bob'', tx_from = Id ''a_bob'',
              receiver = Id ''u_alice'', tx_to = None, amount = 100, status = requested\<rparr>"

definition bank :: store where
  "bank = \<lparr>users = [admin_user, alice, bob], accounts = [admin_acc, alice_acc, bob_acc],
            transactions = [transfer, refund]\<rparr>"

text \<open>
  The same store as its reads return it at the default depth: the preferred account of a
  user is the stored account itself.
\<close>

definition populated_bank :: store where
  "populated_bank =
     bank\<lparr>users := [admin_user\<lparr>preferredAccount := Some (Doc admin_acc)\<rparr>, alice,
                     bob\<lparr>preferredAccount := Some (Doc bob_acc)\<rparr>]\<rparr>"

lemmas example_defs =
  admin_user_def alice_def bob_def admin_acc_def alice_acc_def bob_acc_def transfer_def
  refund_def bank_def


section \<open>Lemmas on the store\<close>

lemma find_map_balance:
  "find (\<lambda>a. acc_id a = j) (map (\<lambda>a. if acc_id a = i then a\<lparr>balance := v\<rparr> else a) xs) =
     map_option (\<lambda>a. if acc_id a = i then a\<lparr>balance := v\<rparr> else a) (find (\<lambda>a. acc_id a = j) xs)"
  by (induction xs) auto

lemma filter_owner_map_balance:
  "filter (\<lambda>a. owner a = u) (map (\<lambda>a. if acc_id a = i then a\<lparr>balance := v\<rparr> else a) xs) =
     map (\<lambda>a. if acc_id a = i then a\<lparr>balance := v\<rparr> else a) (filter (\<lambda>a. owner a = u) xs)"
  by (induction xs) auto

lemma docs0_map: "docs0 (map f xs) = map_option f (docs0 xs)"
  by (cases xs) (simp_all add: docs0_def)

lemma docs0_filter_mem: "docs0 (filter P xs) = Some x \<Longrightarrow> x \<in> set xs \<and> P x"
  by (induction xs) (auto simp: docs0_def split: if_splits)

lemma find_acc_id_mem: "a \<in> set xs \<Longrightarrow> \<exists>y. find (\<lambda>b. acc_id b = acc_id a) xs = Some y"
  by (cases "find (\<lambda>b. acc_id b = acc_id a) xs") (auto simp: find_None_iff)

lemma update_account_balance_frame:
  assumes "update_account_balance i v s = Some s'"
  shows "users s' = users s" and "transactions s' = transactions s"
    and "findByID_account j s' =
           map_option (\<lambda>a. if acc_id a = i then a\<lparr>balance := v\<rparr> else a) (findByID_account j s)"
    and "find_accounts_owner u s' =
           map (\<lambda>a. if acc_id a = i then a\<lparr>balance := v\<rparr> else a) (find_accounts_owner u s)"
    and "find_users_email e s' = find_users_email e s"
  using assms
  by (auto simp: update_account_balance_def findByID_account_def find_accounts_owner_def
      find_users_email_def find_map_balance filter_owner_map_balance split: option.splits)

lemma balance_of_update:
  assumes "update_account_balance i v s = Some s'"
  shows "balance_of j s' = (if j = i then Some v else balance_of j s)"
proof (cases "findByID_account j s")
  case None
  moreover have "findByID_account i s \<noteq> None"
    using assms by (auto simp: update_account_balance_def split: option.splits)
  ultimately show ?thesis
    by (auto simp: balance_of_def update_account_balance_frame(3)[OF assms])
next
  case (Some a)
  then have "acc_id a = j"
    by (auto simp: findByID_account_def find_Some_iff)
  with Some show ?thesis
    by (simp add: balance_of_def update_account_balance_frame(3)[OF assms])
qed

lemma update_account_balance_undefined:
  "update_account_balance i v s = None \<longleftrightarrow> findByID_account i s = None"
  by (auto simp: update_account_balance_def split: option.splits)

lemma clearing_account_stored:
  "clearing_account s = Some clr \<Longrightarrow> findByID_account (acc_id clr) s \<noteq> None"
  by (auto simp: clearing_account_def find_accounts_owner_def findByID_account_def
      split: option.splits dest!: docs0_filter_mem intro!: find_acc_id_mem)

lemma clearing_account_update:
  assumes "update_account_balance i v s = Some s'"
  shows "clearing_account s' =
           map_option (\<lambda>a. if acc_id a = i then a\<lparr>balance := v\<rparr> else a) (clearing_account s)"
  by (simp add: clearing_account_def update_account_balance_frame[OF assms] docs0_map
      split: option.splits)

lemma update_transaction_status_frame:
  assumes "update_transaction_status i v s = Some s'"
  shows "users s' = users s" and "accounts s' = accounts s"
  using assms by (auto simp: update_transaction_status_def split: option.splits)

lemma find_map_status:
  "find (\<lambda>t. tx_id t = i) (map (\<lambda>t. if tx_id t = i then t\<lparr>status := v\<rparr> else t) xs) =
     map_option (\<lambda>t. t\<lparr>status := v\<rparr>) (find (\<lambda>t. tx_id t = i) xs)"
  by (induction xs) auto

lemma status_of_update:
  assumes "update_transaction_status i v s = Some s'"
  shows "status_of i s' = Some v"
  using assms
  by (auto simp: update_transaction_status_def status_of_def findByID_transaction_def
      find_map_status split: option.splits)

lemma update_transaction_status_undefined:
  "update_transaction_status i v s = None \<longleftrightarrow> findByID_transaction i s = None"
  by (auto simp: update_transaction_status_def split: option.splits)


section \<open>The two operations, step by step\<close>

lemmas action_defs =
  bnd_def ret_def throw_def record_call_def getInstance_def getInstance_nullable_def
  payload_findByID_accounts_def payload_findByID_users_def payload_find_accounts_owner_def
  payload_find_users_email_def payload_update_accounts_balance_def
  payload_update_transactions_status_def assign_to_def

lemma initiateTransaction_unfold:
  "initiateTransaction t s =
    (case resolve_account (tx_from t) s of
       None \<Rightarrow> (Inl NotFound, \<lparr>db = s, arg = t, calls = ref_calls Accounts (tx_from t)\<rparr>)
     | Some from \<Rightarrow>
    (case resolve_user (receiver t) s of
       None \<Rightarrow> (Inl NotFound, \<lparr>db = s, arg = t,
                  calls = ref_calls Accounts (tx_from t) @ ref_calls Users (receiver t)\<rparr>)
     | Some rcv \<Rightarrow>
    (let cs = ref_calls Accounts (tx_from t) @ ref_calls Users (receiver t)
                @ [Find Accounts ''owner'' (user_id rcv)]
     in
     if rejects from rcv t s then
       (let cs' = cs @ [Update Transactions (tx_id t) (Status rejected)] in
        case update_transaction_status (tx_id t) rejected s of
          None \<Rightarrow> (Inl NotFound, \<lparr>db = s, arg = t, calls = cs'\<rparr>)
        | Some s' \<Rightarrow> (Inr rejection, \<lparr>db = s', arg = t, calls = cs'\<rparr>))
     else
       (let t' = t\<lparr>tx_to := destination rcv (find_accounts_owner (user_id rcv) s)\<rparr>;
            cs1 = cs @ [Find Users ''email'' admin_email]
        in
        case docs0 (find_users_email admin_email s) of
          None \<Rightarrow> (Inl TypeError, \<lparr>db = s, arg = t', calls = cs1\<rparr>)
        | Some adminUser \<Rightarrow>
       (let cs2 = cs1 @ [Find Accounts ''owner'' (user_id adminUser)] in
        case docs0 (find_accounts_owner (user_id adminUser) s) of
          None \<Rightarrow> (Inl TypeError, \<lparr>db = s, arg = t', calls = cs2\<rparr>)
        | Some clr \<Rightarrow>
       (let cs3 = cs2 @ [Update Accounts (acc_id clr) (Balance (balance clr + amount t))] in
        case update_account_balance (acc_id clr) (balance clr + amount t) s of
          None \<Rightarrow> (Inl NotFound, \<lparr>db = s, arg = t', calls = cs3\<rparr>)
        | Some s1 \<Rightarrow>
       (let cs4 = cs3 @ [Update Accounts (acc_id from) (Balance (balance from - amount t))] in
        case update_account_balance (acc_id from) (balance from - amount t) s1 of
          None \<Rightarrow> (Inl NotFound, \<lparr>db = s1, arg = t', calls = cs4\<rparr>)
        | Some s2 \<Rightarrow> (Inr ok, \<lparr>db = s2, arg = t', calls = cs4\<rparr>))))))))"
  by (cases "tx_from t"; cases "receiver t")
     (simp_all add: initiateTransaction_def action_defs resolve_account_def resolve_user_def
        ref_calls_def rejects_def destination_def ok_def rejection_def Let_def
        split: option.splits)

lemma completeTransaction_unfold:
  "completeTransaction t s =
    (let cs0 = (case tx_to t of None \<Rightarrow> [] | Some r \<Rightarrow> ref_calls Accounts r) in
     case tx_to t of
       None \<Rightarrow> (Inl (Error ''Target account not found''), \<lparr>db = s, arg = t, calls = cs0\<rparr>)
     | Some r \<Rightarrow>
    (case resolve_account r s of
       None \<Rightarrow> (Inl NotFound, \<lparr>db = s, arg = t, calls = cs0\<rparr>)
     | Some to \<Rightarrow>
    (let cs1 = cs0 @ [Find Users ''email'' admin_email] in
     case docs0 (find_users_email admin_email s) of
       None \<Rightarrow> (Inl (Error ''Admin user not found''), \<lparr>db = s, arg = t, calls = cs1\<rparr>)
     | Some adminUser \<Rightarrow>
    (let cs2 = cs1 @ [Find Accounts ''owner'' (user_id adminUser)] in
     case docs0 (find_accounts_owner (user_id adminUser) s) of
       None \<Rightarrow> (Inl (Error ''Admin account not found''), \<lparr>db = s, arg = t, calls = cs2\<rparr>)
     | Some clr \<Rightarrow>
    (let cs3 = cs2 @ [Update Accounts (acc_id clr) (Balance (balance clr - amount t))] in
     case update_account_balance (acc_id clr) (balance clr - amount t) s of
       None \<Rightarrow> (Inl NotFound, \<lparr>db = s, arg = t, calls = cs3\<rparr>)
     | Some s1 \<Rightarrow>
    (let cs4 = cs3 @ [Update Accounts (acc_id to) (Balance (balance to + amount t))] in
     case update_account_balance (acc_id to) (balance to + amount t) s1 of
       None \<Rightarrow> (Inl NotFound, \<lparr>db = s1, arg = t, calls = cs4\<rparr>)
     | Some s2 \<Rightarrow> (Inr ok, \<lparr>db = s2, arg = t, calls = cs4\<rparr>)))))))"
  by (cases "tx_to t"; (cases "the (tx_to t)")?)
     (simp_all add: completeTransaction_def action_defs resolve_account_def
        ref_calls_def ok_def Let_def split: option.splits)


section \<open>Lemmas on the recorded calls\<close>

lemma writes_append [simp]: "writes (xs @ ys) = writes xs @ writes ys"
  by (simp add: writes_def)

lemma writes_ref_calls [simp]: "writes (ref_calls c r) = []"
  by (cases r) (simp_all add: writes_def ref_calls_def)

lemma filter_writes_to_ref_calls [simp]: "filter (writes_to c') (ref_calls c r) = []"
  by (cases r) (simp_all add: ref_calls_def)

lemma writes_simps [simp]:
  "writes [] = []"
  "writes (c # cs) = (if is_write c then c # writes cs else writes cs)"
  by (simp_all add: writes_def)

lemmas store_defs =
  resolve_account_def resolve_user_def findByID_account_def findByID_user_def
  findByID_transaction_def find_accounts_owner_def find_users_email_def clearing_account_def
  docs0_def admin_email_def balance_of_def


section \<open>Rejection\<close>

text \<open>
  C2. When the source and the receiver resolve and the transaction is a document of the
  transactions collection, \<^verbatim>\<open>initiateTransaction\<close> answers with the rejection exactly when
  the resolved source's balance is strictly below the amount or the receiver owns no account.
  On rejection the stored status is \<open>rejected\<close>, the accounts are untouched and the only
  write is that status update. With the amount equal to the source balance and a receiver
  that owns an account the call does not reject; it succeeds once the clearing account
  resolves and the source account is stored.
\<close>

theorem initiate_rejects_iff:
  assumes "resolve_account (tx_from t) s = Some from"
    and "resolve_user (receiver t) s = Some rcv"
    and "findByID_transaction (tx_id t) s \<noteq> None"
  shows "(fst (initiateTransaction t s) = Inr rejection
            \<longleftrightarrow> balance from < amount t \<or> find_accounts_owner (user_id rcv) s = [])
         \<and> (fst (initiateTransaction t s) = Inr rejection \<longrightarrow>
              status_of (tx_id t) (db (snd (initiateTransaction t s))) = Some rejected
              \<and> accounts (db (snd (initiateTransaction t s))) = accounts s
              \<and> writes (calls (snd (initiateTransaction t s)))
                  = [Update Transactions (tx_id t) (Status rejected)])
         \<and> (balance from = amount t \<and> find_accounts_owner (user_id rcv) s \<noteq> [] \<longrightarrow>
              fst (initiateTransaction t s) \<noteq> Inr rejection
              \<and> (clearing_account s \<noteq> None \<and> findByID_account (acc_id from) s \<noteq> None
                   \<longrightarrow> fst (initiateTransaction t s) = Inr ok))"
proof -
  let ?r = "initiateTransaction t s"
  have stored: "update_transaction_status (tx_id t) rejected s \<noteq> None"
    using assms(3) by (simp add: update_transaction_status_undefined)
  have rej: "fst ?r = Inr rejection \<longleftrightarrow> rejects from rcv t s"
    using assms(1,2) stored
    by (auto simp: initiateTransaction_unfold Let_def rejection_def ok_def split: option.splits)
  have a: "fst ?r = Inr rejection
            \<longleftrightarrow> balance from < amount t \<or> find_accounts_owner (user_id rcv) s = []"
    unfolding rej by (simp add: rejects_def)
  have b: "status_of (tx_id t) (db (snd ?r)) = Some rejected
              \<and> accounts (db (snd ?r)) = accounts s
              \<and> writes (calls (snd ?r)) = [Update Transactions (tx_id t) (Status rejected)]"
    if "fst ?r = Inr rejection"
    using that[unfolded rej] assms(1,2) stored
    by (auto simp: initiateTransaction_unfold Let_def status_of_update
        update_transaction_status_frame split: option.splits)
  have c: "fst ?r \<noteq> Inr rejection
              \<and> (clearing_account s \<noteq> None \<and> findByID_account (acc_id from) s \<noteq> None
                   \<longrightarrow> fst ?r = Inr ok)"
    if eq: "balance from = amount t \<and> find_accounts_owner (user_id rcv) s \<noteq> []"
  proof -
    from eq have nr: "\<not> rejects from rcv t s" by (simp add: rejects_def)
    then have "fst ?r \<noteq> Inr rejection" by (simp add: rej)
    moreover have "fst ?r = Inr ok"
      if "clearing_account s \<noteq> None" "findByID_account (acc_id from) s \<noteq> None"
    proof -
      from that(1) obtain u clr where u: "docs0 (find_users_email admin_email s) = Some u"
        and clr: "docs0 (find_accounts_owner (user_id u) s) = Some clr"
        by (auto simp: clearing_account_def split: option.splits)
      then have "clearing_account s = Some clr" by (simp add: clearing_account_def)
      then obtain s1 where s1: "update_account_balance (acc_id clr) (balance clr + amount t) s = Some s1"
        using clearing_account_stored[of s clr]
        by (cases "update_account_balance (acc_id clr) (balance clr + amount t) s")
           (auto simp: update_account_balance_undefined)
      have "findByID_account (acc_id from) s1 \<noteq> None"
        using that(2) by (simp add: update_account_balance_frame(3)[OF s1])
      then obtain s2 where "update_account_balance (acc_id from) (balance from - amount t) s1 = Some s2"
        by (cases "update_account_balance (acc_id from) (balance from - amount t) s1")
           (auto simp: update_account_balance_undefined)
      with assms(1,2) nr u clr s1 show ?thesis
        by (simp add: initiateTransaction_unfold Let_def)
    qed
    ultimately show ?thesis by blast
  qed
  from a b c show ?thesis by blast
qed

theorem initiate_rejects_iff_witness:
  "resolve_account (tx_from (transfer\<lparr>amount := 1001\<rparr>)) bank = Some alice_acc
   \<and> resolve_user (receiver (transfer\<lparr>amount := 1001\<rparr>)) bank = Some bob
   \<and> findByID_transaction (tx_id (transfer\<lparr>amount := 1001\<rparr>)) bank \<noteq> None
   \<and> fst (initiateTransaction (transfer\<lparr>amount := 1001\<rparr>) bank) = Inr rejection
   \<and> status_of ''tx1'' (db (snd (initiateTransaction (transfer\<lparr>amount := 1001\<rparr>) bank)))
       = Some rejected
   \<and> accounts (db (snd (initiateTransaction (transfer\<lparr>amount := 1001\<rparr>) bank))) = accounts bank
   \<and> balance alice_acc = amount (transfer\<lparr>amount := 1000\<rparr>)
   \<and> fst (initiateTransaction (transfer\<lparr>amount := 1000\<rparr>) bank) = Inr ok"
proof -
  have h1: "resolve_account (tx_from (transfer\<lparr>amount := a\<rparr>)) bank = Some alice_acc" for a
    by (simp add: store_defs example_defs)
  have h2: "resolve_user (receiver (transfer\<lparr>amount := a\<rparr>)) bank = Some bob" for a
    by (simp add: store_defs example_defs)
  have h3: "findByID_transaction (tx_id (transfer\<lparr>amount := a\<rparr>)) bank \<noteq> None" for a
    by (simp add: store_defs example_defs)
  show ?thesis
    using h1 h2 h3 initiate_rejects_iff[OF h1 h2 h3, of 1001] initiate_rejects_iff[OF h1 h2 h3, of 1000]
    by (simp add: store_defs status_of_def example_defs)
qed

text \<open>
  C9. When the rejection test holds, the calls made are the lookups of source and receiver,
  the query for the receiver's accounts and the status update, nothing else: the query for
  the admin user is never issued. The rejection is therefore produced whatever the store
  holds for the clearing user and account.
\<close>

theorem rejection_skips_clearing_lookup:
  assumes "resolve_account (tx_from t) s = Some from"
    and "resolve_user (receiver t) s = Some rcv"
    and "balance from < amount t \<or> find_accounts_owner (user_id rcv) s = []"
  shows "calls (snd (initiateTransaction t s)) =
           ref_calls Accounts (tx_from t) @ ref_calls Users (receiver t)
           @ [Find Accounts ''owner'' (user_id rcv), Update Transactions (tx_id t) (Status rejected)]
         \<and> Find Users ''email'' admin_email \<notin> set (calls (snd (initiateTransaction t s)))
         \<and> (findByID_transaction (tx_id t) s \<noteq> None \<longrightarrow>
              fst (initiateTransaction t s) = Inr rejection
              \<and> status_of (tx_id t) (db (snd (initiateTransaction t s))) = Some rejected)"
proof -
  have r: "rejects from rcv t s"
    using assms(3) by (auto simp: rejects_def)
  have c: "calls (snd (initiateTransaction t s)) =
           ref_calls Accounts (tx_from t) @ ref_calls Users (receiver t)
           @ [Find Accounts ''owner'' (user_id rcv), Update Transactions (tx_id t) (Status rejected)]"
    using assms(1,2) r by (simp add: initiateTransaction_unfold Let_def split: option.splits)
  have n: "Find Users ''email'' admin_email \<notin> set (calls (snd (initiateTransaction t s)))"
    unfolding c by (cases "tx_from t"; cases "receiver t") (simp_all add: ref_calls_def)
  have o: "fst (initiateTransaction t s) = Inr rejection
              \<and> status_of (tx_id t) (db (snd (initiateTransaction t s))) = Some rejected"
    if "findByID_transaction (tx_id t) s \<noteq> None"
    using assms(1,2) r that
    by (auto simp: initiateTransaction_unfold Let_def update_transaction_status_undefined
        status_of_update split: option.splits)
  from c n o show ?thesis by blast
qed

theorem rejection_skips_clearing_lookup_witness:
  "clearing_account (bank\<lparr>users := [alice, bob]\<rparr>) = None
   \<and> resolve_account (tx_from (transfer\<lparr>amount := 1001\<rparr>)) (bank\<lparr>users := [alice, bob]\<rparr>)
       = Some alice_acc
   \<and> resolve_user (receiver (transfer\<lparr>amount := 1001\<rparr>)) (bank\<lparr>users := [alice, bob]\<rparr>) = Some bob
   \<and> balance alice_acc < amount (transfer\<lparr>amount := 1001\<rparr>)
   \<and> fst (initiateTransaction (transfer\<lparr>amount := 1001\<rparr>) (bank\<lparr>users := [alice, bob]\<rparr>))
       = Inr rejection
   \<and> status_of ''tx1''
        (db (snd (initiateTransaction (transfer\<lparr>amount := 1001\<rparr>) (bank\<lparr>users := [alice, bob]\<rparr>))))
       = Some rejected
   \<and> calls (snd (initiateTransaction (transfer\<lparr>amount := 1001\<rparr>) (bank\<lparr>users := [alice, bob]\<rparr>)))
       = [FindByID Accounts ''a_alice'', FindByID Users ''u_bob'', Find Accounts ''owner'' ''u_bob'',
          Update Transactions ''tx1'' (Status rejected)]"
proof -
  let ?t = "transfer\<lparr>amount := 1001\<rparr>" and ?s = "bank\<lparr>users := [alice, bob]\<rparr>"
  have h1: "resolve_account (tx_from ?t) ?s = Some alice_acc"
    by (simp add: store_defs example_defs)
  have h2: "resolve_user (receiver ?t) ?s = Some bob"
    by (simp add: store_defs example_defs)
  have h3: "balance alice_acc < amount ?t \<or> find_accounts_owner (user_id bob) ?s = []"
    by (simp add: store_defs example_defs)
  show ?thesis
    using h1 h2 rejection_skips_clearing_lookup[OF h1 h2 h3]
    by (simp add: store_defs status_of_def example_defs ref_calls_def)
qed


section \<open>Failing lookups\<close>

text \<open>
  C6. A call in which a lookup fails ends in an error with the store as it was and no write
  issued. For \<^verbatim>\<open>initiateTransaction\<close>: the source or the receiver is not found, or the
  rejection test passes and the clearing user or account is missing. For
  \<^verbatim>\<open>completeTransaction\<close>: the destination is unset or not found, or the clearing user or
  account is missing.
\<close>

theorem lookup_failure_aborts_before_mutation:
  "(resolve_account (tx_from t) s = None \<or> resolve_user (receiver t) s = None
      \<longrightarrow> aborted (initiateTransaction t s) s)
   \<and> (resolve_account (tx_from t) s = Some from \<and> resolve_user (receiver t) s = Some rcv
        \<and> \<not> rejects from rcv t s \<and> clearing_account s = None
      \<longrightarrow> aborted (initiateTransaction t s) s)
   \<and> (resolve_to (tx_to t) s = None \<or> clearing_account s = None
      \<longrightarrow> aborted (completeTransaction t s) s)"
proof (intro conjI impI)
  assume "resolve_account (tx_from t) s = None \<or> resolve_user (receiver t) s = None"
  then show "aborted (initiateTransaction t s) s"
    by (auto simp: initiateTransaction_unfold aborted_def split: option.splits)
next
  assume "resolve_account (tx_from t) s = Some from \<and> resolve_user (receiver t) s = Some rcv
        \<and> \<not> rejects from rcv t s \<and> clearing_account s = None"
  then show "aborted (initiateTransaction t s) s"
    by (auto simp: initiateTransaction_unfold aborted_def Let_def clearing_account_def
        split: option.splits)
next
  assume "resolve_to (tx_to t) s = None \<or> clearing_account s = None"
  then show "aborted (completeTransaction t s) s"
    by (auto simp: completeTransaction_unfold aborted_def Let_def clearing_account_def
        resolve_to_def split: option.splits)
qed

theorem lookup_failure_aborts_before_mutation_witness:
  "resolve_account (tx_from (transfer\<lparr>tx_from := Id ''a_gone''\<rparr>)) bank = None
   \<and> aborted (initiateTransaction (transfer\<lparr>tx_from := Id ''a_gone''\<rparr>) bank) bank
   \<and> resolve_user (receiver (transfer\<lparr>receiver := Id ''u_gone''\<rparr>)) bank = None
   \<and> aborted (initiateTransaction (transfer\<lparr>receiver := Id ''u_gone''\<rparr>) bank) bank
   \<and> clearing_account (bank\<lparr>users := [alice, bob]\<rparr>) = None
   \<and> \<not> rejects alice_acc bob transfer (bank\<lparr>users := [alice, bob]\<rparr>)
   \<and> aborted (initiateTransaction transfer (bank\<lparr>users := [alice, bob]\<rparr>)) (bank\<lparr>users := [alice, bob]\<rparr>)
   \<and> clearing_account (bank\<lparr>accounts := [alice_acc, bob_acc]\<rparr>) = None
   \<and> aborted (initiateTransaction transfer (bank\<lparr>accounts := [alice_acc, bob_acc]\<rparr>))
        (bank\<lparr>accounts := [alice_acc, bob_acc]\<rparr>)
   \<and> resolve_to (tx_to transfer) bank = None
   \<and> aborted (completeTransaction transfer bank) bank
   \<and> resolve_to (tx_to (transfer\<lparr>tx_to := Some (Id ''a_gone'')\<rparr>)) bank = None
   \<and> aborted (completeTransaction (transfer\<lparr>tx_to := Some (Id ''a_gone'')\<rparr>) bank) bank
   \<and> aborted (completeTransaction (transfer\<lparr>tx_to := Some (Id ''a_bob'')\<rparr>)
        (bank\<lparr>users := [alice, bob]\<rparr>)) (bank\<lparr>users := [alice, bob]\<rparr>)
   \<and> aborted (completeTransaction (transfer\<lparr>tx_to := Some (Id ''a_bob'')\<rparr>)
        (bank\<lparr>accounts := [alice_acc, bob_acc]\<rparr>)) (bank\<lparr>accounts := [alice_acc, bob_acc]\<rparr>)"
  using
    lookup_failure_aborts_before_mutation[of "transfer\<lparr>tx_from := Id ''a_gone''\<rparr>" bank alice_acc bob]
    lookup_failure_aborts_before_mutation[of "transfer\<lparr>receiver := Id ''u_gone''\<rparr>" bank alice_acc bob]
    lookup_failure_aborts_before_mutation[of transfer "bank\<lparr>users := [alice, bob]\<rparr>" alice_acc bob]
    lookup_failure_aborts_before_mutation[of transfer "bank\<lparr>accounts := [alice_acc, bob_acc]\<rparr>" alice_acc bob]
    lookup_failure_aborts_before_mutation[of transfer bank alice_acc bob]
    lookup_failure_aborts_before_mutation[of "transfer\<lparr>tx_to := Some (Id ''a_gone'')\<rparr>" bank alice_acc bob]
    lookup_failure_aborts_before_mutation[of "transfer\<lparr>tx_to := Some (Id ''a_bob'')\<rparr>" "bank\<lparr>users := [alice, bob]\<rparr>" alice_acc bob]
    lookup_failure_aborts_before_mutation[of "transfer\<lparr>tx_to := Some (Id ''a_bob'')\<rparr>" "bank\<lparr>accounts := [alice_acc, bob_acc]\<rparr>" alice_acc bob]
  by (simp add: store_defs resolve_to_def example_defs rejects_def)


section \<open>Completion and the transactions collection\<close>

text \<open>
  C10. \<^verbatim>\<open>completeTransaction\<close> leaves the transactions collection, the users collection and
  the transaction object it was given as they were; it issues no write to the transactions
  collection, every write it issues goes to the accounts collection, and there are at most
  two of them.
\<close>

theorem completeTransaction_leaves_transactions:
  "transactions (db (snd (completeTransaction t s))) = transactions s
   \<and> users (db (snd (completeTransaction t s))) = users s
   \<and> arg (snd (completeTransaction t s)) = t
   \<and> filter (writes_to Transactions) (calls (snd (completeTransaction t s))) = []
   \<and> filter (writes_to Accounts) (calls (snd (completeTransaction t s)))
       = writes (calls (snd (completeTransaction t s)))
   \<and> length (writes (calls (snd (completeTransaction t s)))) \<le> 2"
  by (auto simp: completeTransaction_unfold Let_def update_account_balance_frame(1,2)
      split: option.splits)


section \<open>Successful calls\<close>

lemma clearing_account_owner:
  "clearing_account s = Some clr \<Longrightarrow>
     \<exists>u. docs0 (find_users_email admin_email s) = Some u
       \<and> docs0 (find_accounts_owner (user_id u) s) = Some clr \<and> owner clr = user_id u"
  by (auto simp: clearing_account_def find_accounts_owner_def split: option.splits
      dest: docs0_filter_mem)

lemma initiate_okE:
  assumes "initiateTransaction t s = (Inr ok, w)"
  obtains "from" rcv clr s1 where
    "resolve_account (tx_from t) s = Some from"
    "resolve_user (receiver t) s = Some rcv"
    "\<not> rejects from rcv t s"
    "clearing_account s = Some clr"
    "update_account_balance (acc_id clr) (balance clr + amount t) s = Some s1"
    "update_account_balance (acc_id from) (balance from - amount t) s1 = Some (db w)"
    "arg w = t\<lparr>tx_to := destination rcv (find_accounts_owner (user_id rcv) s)\<rparr>"
    "calls w = ref_calls Accounts (tx_from t) @ ref_calls Users (receiver t)
       @ [Find Accounts ''owner'' (user_id rcv), Find Users ''email'' admin_email,
          Find Accounts ''owner'' (owner clr),
          Update Accounts (acc_id clr) (Balance (balance clr + amount t)),
          Update Accounts (acc_id from) (Balance (balance from - amount t))]"
proof -
  from assms obtain "from" where f: "resolve_account (tx_from t) s = Some from"
    by (cases "resolve_account (tx_from t) s") (auto simp: initiateTransaction_unfold)
  from assms f obtain rcv where r: "resolve_user (receiver t) s = Some rcv"
    by (cases "resolve_user (receiver t) s") (auto simp: initiateTransaction_unfold)
  from assms f r have nr: "\<not> rejects from rcv t s"
    by (auto simp: initiateTransaction_unfold Let_def ok_def rejection_def split: option.splits)
  from assms f r nr obtain u where u: "docs0 (find_users_email admin_email s) = Some u"
    by (cases "docs0 (find_users_email admin_email s)")
       (auto simp: initiateTransaction_unfold Let_def)
  from assms f r nr u obtain clr where c: "docs0 (find_accounts_owner (user_id u) s) = Some clr"
    by (cases "docs0 (find_accounts_owner (user_id u) s)")
       (auto simp: initiateTransaction_unfold Let_def)
  from u c have clr: "clearing_account s = Some clr"
    by (simp add: clearing_account_def)
  from c have own: "owner clr = user_id u"
    by (auto simp: find_accounts_owner_def dest: docs0_filter_mem)
  from assms f r nr u c obtain s1
    where s1: "update_account_balance (acc_id clr) (balance clr + amount t) s = Some s1"
    by (cases "update_account_balance (acc_id clr) (balance clr + amount t) s")
       (auto simp: initiateTransaction_unfold Let_def)
  from assms f r nr u c s1 obtain s2
    where s2: "update_account_balance (acc_id from) (balance from - amount t) s1 = Some s2"
    by (cases "update_account_balance (acc_id from) (balance from - amount t) s1")
       (auto simp: initiateTransaction_unfold Let_def)
  from assms f r nr u c s1 s2
  have w: "w = \<lparr>db = s2, arg = t\<lparr>tx_to := destination rcv (find_accounts_owner (user_id rcv) s)\<rparr>,
      calls = ref_calls Accounts (tx_from t) @ ref_calls Users (receiver t)
       @ [Find Accounts ''owner'' (user_id rcv), Find Users ''email'' admin_email,
          Find Accounts ''owner'' (user_id u),
          Update Accounts (acc_id clr) (Balance (balance clr + amount t)),
          Update Accounts (acc_id from) (Balance (balance from - amount t))]\<rparr>"
    by (simp add: initiateTransaction_unfold Let_def)
  show thesis
    by (rule that[OF f r nr clr s1]) (simp_all add: w s2 own)
qed

lemma complete_okE:
  assumes "completeTransaction t s = (Inr ok, w)"
  obtains r to clr s1 where
    "tx_to t = Some r"
    "resolve_account r s = Some to"
    "clearing_account s = Some clr"
    "update_account_balance (acc_id clr) (balance clr - amount t) s = Some s1"
    "update_account_balance (acc_id to) (balance to + amount t) s1 = Some (db w)"
    "arg w = t"
    "calls w = ref_calls Accounts r
       @ [Find Users ''email'' admin_email, Find Accounts ''owner'' (owner clr),
          Update Accounts (acc_id clr) (Balance (balance clr - amount t)),
          Update Accounts (acc_id to) (Balance (balance to + amount t))]"
proof -
  from assms obtain r where r: "tx_to t = Some r"
    by (cases "tx_to t") (auto simp: completeTransaction_unfold)
  from assms r obtain to where to: "resolve_account r s = Some to"
    by (cases "resolve_account r s") (auto simp: completeTransaction_unfold)
  from assms r to obtain u where u: "docs0 (find_users_email admin_email s) = Some u"
    by (cases "docs0 (find_users_email admin_email s)")
       (auto simp: completeTransaction_unfold Let_def)
  from assms r to u obtain clr where c: "docs0 (find_accounts_owner (user_id u) s) = Some clr"
    by (cases "docs0 (find_accounts_owner (user_id u) s)")
       (auto simp: completeTransaction_unfold Let_def)
  from u c have clr: "clearing_account s = Some clr"
    by (simp add: clearing_account_def)
  from c have own: "owner clr = user_id u"
    by (auto simp: find_accounts_owner_def dest: docs0_filter_mem)
  from assms r to u c obtain s1
    where s1: "update_account_balance (acc_id clr) (balance clr - amount t) s = Some s1"
    by (cases "update_account_balance (acc_id clr) (balance clr - amount t) s")
       (auto simp: completeTransaction_unfold Let_def)
  from assms r to u c s1 obtain s2
    where s2: "update_account_balance (acc_id to) (balance to + amount t) s1 = Some s2"
    by (cases "update_account_balance (acc_id to) (balance to + amount t) s1")
       (auto simp: completeTransaction_unfold Let_def)
  from assms r to u c s1 s2
  have w: "w = \<lparr>db = s2, arg = t,
      calls = ref_calls Accounts r
       @ [Find Users ''email'' admin_email, Find Accounts ''owner'' (user_id u),
          Update Accounts (acc_id clr) (Balance (balance clr - amount t)),
          Update Accounts (acc_id to) (Balance (balance to + amount t))]\<rparr>"
    by (simp add: completeTransaction_unfold Let_def)
  show thesis
    by (rule that[OF r to clr s1]) (simp_all add: w s2 own)
qed

lemma find_distinct_acc_id:
  "distinct (map acc_id xs) \<Longrightarrow> a \<in> set xs \<Longrightarrow> find (\<lambda>b. acc_id b = acc_id a) xs = Some a"
  by (induction xs) (auto simp: image_iff)

lemma clearing_account_balance:
  assumes "distinct (map acc_id (accounts s))" and "clearing_account s = Some clr"
  shows "balance_of (acc_id clr) s = Some (balance clr)"
proof -
  from assms(2) have "clr \<in> set (accounts s)"
    by (auto simp: clearing_account_def find_accounts_owner_def split: option.splits
        dest: docs0_filter_mem)
  with assms(1) show ?thesis
    by (simp add: balance_of_def findByID_account_def find_distinct_acc_id)
qed

lemma resolve_account_Id:
  "resolve_account (Id i) s = Some a \<Longrightarrow> acc_id a = i \<and> balance_of i s = Some (balance a)"
  by (auto simp: resolve_account_def balance_of_def findByID_account_def find_Some_iff)

lemma update_account_balance_defined:
  "findByID_account i s \<noteq> None \<Longrightarrow> \<exists>s'. update_account_balance i v s = Some s'"
  by (cases "update_account_balance i v s") (auto simp: update_account_balance_undefined)

lemmas run_defs =
  initiateTransaction_unfold completeTransaction_unfold Let_def rejects_def
  update_account_balance_def update_transaction_status_def destination_def ref_calls_def


subsection \<open>Initiation\<close>

text \<open>
  C1. A successful \<^verbatim>\<open>initiateTransaction\<close> issues exactly two writes, in this order: the
  clearing account's balance is set to its balance plus the amount, then the source's balance
  is set to the resolved source's balance minus the amount. Afterwards the source's stored
  balance is that difference, every account other than the two has its balance unchanged, and
  the clearing account's stored balance is that sum provided the source is not the clearing
  account. The clearing balance read is the stored one when account ids are unique; the
  source balance read is the stored one when \<^verbatim>\<open>transaction.from\<close> is an id.
\<close>

theorem initiate_success_balances:
  assumes "initiateTransaction t s = (Inr ok, w)"
  shows "\<exists>from clr.
           resolve_account (tx_from t) s = Some from \<and> clearing_account s = Some clr
         \<and> writes (calls w) =
             [Update Accounts (acc_id clr) (Balance (balance clr + amount t)),
              Update Accounts (acc_id from) (Balance (balance from - amount t))]
         \<and> balance_of (acc_id from) (db w) = Some (balance from - amount t)
         \<and> (acc_id from \<noteq> acc_id clr \<longrightarrow>
              balance_of (acc_id clr) (db w) = Some (balance clr + amount t))
         \<and> (\<forall>j. j \<noteq> acc_id clr \<and> j \<noteq> acc_id from \<longrightarrow> balance_of j (db w) = balance_of j s)
         \<and> (distinct (map acc_id (accounts s)) \<longrightarrow> balance_of (acc_id clr) s = Some (balance clr))
         \<and> (\<forall>i. tx_from t = Id i \<longrightarrow> acc_id from = i \<and> balance_of i s = Some (balance from))"
proof -
  from assms obtain "from" rcv clr s1 where
    f: "resolve_account (tx_from t) s = Some from" and
    r: "resolve_user (receiver t) s = Some rcv" and
    nr: "\<not> rejects from rcv t s" and
    c: "clearing_account s = Some clr" and
    u1: "update_account_balance (acc_id clr) (balance clr + amount t) s = Some s1" and
    u2: "update_account_balance (acc_id from) (balance from - amount t) s1 = Some (db w)" and
    a: "arg w = t\<lparr>tx_to := destination rcv (find_accounts_owner (user_id rcv) s)\<rparr>" and
    cs: "calls w = ref_calls Accounts (tx_from t) @ ref_calls Users (receiver t)
       @ [Find Accounts ''owner'' (user_id rcv), Find Users ''email'' admin_email,
          Find Accounts ''owner'' (owner clr),
          Update Accounts (acc_id clr) (Balance (balance clr + amount t)),
          Update Accounts (acc_id from) (Balance (balance from - amount t))]"
    by (rule initiate_okE)
  have "writes (calls w) =
             [Update Accounts (acc_id clr) (Balance (balance clr + amount t)),
              Update Accounts (acc_id from) (Balance (balance from - amount t))]"
    by (simp add: cs)
  moreover have "balance_of j (db w) =
      (if j = acc_id from then Some (balance from - amount t)
       else if j = acc_id clr then Some (balance clr + amount t) else balance_of j s)" for j
    by (simp add: balance_of_update[OF u2] balance_of_update[OF u1])
  moreover have "balance_of (acc_id clr) s = Some (balance clr)"
    if "distinct (map acc_id (accounts s))"
    using that c by (rule clearing_account_balance)
  moreover have "acc_id from = i \<and> balance_of i s = Some (balance from)" if "tx_from t = Id i" for i
    using f that by (simp add: resolve_account_Id)
  ultimately show ?thesis using f c by auto
qed

theorem initiate_success_balances_witness:
  "initiateTransaction transfer bank
     = (Inr ok, snd (initiateTransaction transfer bank))
   \<and> resolve_account (tx_from transfer) bank = Some alice_acc
   \<and> clearing_account bank = Some admin_acc
   \<and> writes (calls (snd (initiateTransaction transfer bank)))
       = [Update Accounts ''a_admin'' (Balance 5400), Update Accounts ''a_alice'' (Balance 600)]
   \<and> balance_of ''a_admin'' bank = Some 5000
   \<and> balance_of ''a_admin'' (db (snd (initiateTransaction transfer bank))) = Some 5400
   \<and> balance_of ''a_alice'' bank = Some 1000
   \<and> balance_of ''a_alice'' (db (snd (initiateTransaction transfer bank))) = Some 600
   \<and> balance_of ''a_bob'' (db (snd (initiateTransaction transfer bank))) = balance_of ''a_bob'' bank"
proof -
  have h: "initiateTransaction transfer bank = (Inr ok, snd (initiateTransaction transfer bank))"
    by (rule prod_eqI) (simp_all add: initiateTransaction_unfold Let_def store_defs example_defs
      rejects_def update_account_balance_def destination_def ref_calls_def)
  have f: "resolve_account (tx_from transfer) bank = Some alice_acc"
    and c: "clearing_account bank = Some admin_acc"
    by (simp_all add: store_defs example_defs)
  show ?thesis
    using h f c initiate_success_balances[OF h]
    by (auto simp: store_defs example_defs)
qed

text \<open>
  When the source is the clearing account itself the second write overwrites the first: the
  admin sends 400 from the clearing account, which holds 5000, and it ends at 4600, not 5400.
\<close>

theorem initiate_clearing_credit_counterexample:
  "fst (initiateTransaction (transfer\<lparr>tx_from := Id ''a_admin''\<rparr>) bank) = Inr ok
   \<and> clearing_account bank = Some admin_acc
   \<and> balance_of ''a_admin'' bank = Some 5000
   \<and> amount (transfer\<lparr>tx_from := Id ''a_admin''\<rparr>) = 400
   \<and> balance_of ''a_admin'' (db (snd (initiateTransaction (transfer\<lparr>tx_from := Id ''a_admin''\<rparr>) bank)))
       = Some 4600"
  by (simp add: initiateTransaction_unfold Let_def store_defs example_defs
      rejects_def update_account_balance_def destination_def ref_calls_def ok_def)

text \<open>
  C3. A successful \<^verbatim>\<open>initiateTransaction\<close> assigns the chosen destination to the \<^verbatim>\<open>to\<close>
  field of the transaction object it was given and changes no other field of it: the
  receiver's preferred account when that is set (an object or a non-empty id), otherwise the
  first of the receiver's accounts as the store lists them, an account owned by the receiver.
  The transactions collection is left as it was.
\<close>

theorem initiate_assigns_destination:
  assumes "initiateTransaction t s = (Inr ok, w)"
  shows "\<exists>rcv. resolve_user (receiver t) s = Some rcv
         \<and> (truthy (preferredAccount rcv) \<longrightarrow> tx_to (arg w) = preferredAccount rcv)
         \<and> (\<not> truthy (preferredAccount rcv) \<longrightarrow>
              (\<exists>a. docs0 (find_accounts_owner (user_id rcv) s) = Some a
                 \<and> tx_to (arg w) = Some (Doc a)
                 \<and> a \<in> set (accounts s) \<and> owner a = user_id rcv))
         \<and> arg w = t\<lparr>tx_to := tx_to (arg w)\<rparr>
         \<and> transactions (db w) = transactions s"
proof -
  from assms obtain "from" rcv clr s1 where
    f: "resolve_account (tx_from t) s = Some from" and
    r: "resolve_user (receiver t) s = Some rcv" and
    nr: "\<not> rejects from rcv t s" and
    c: "clearing_account s = Some clr" and
    u1: "update_account_balance (acc_id clr) (balance clr + amount t) s = Some s1" and
    u2: "update_account_balance (acc_id from) (balance from - amount t) s1 = Some (db w)" and
    a: "arg w = t\<lparr>tx_to := destination rcv (find_accounts_owner (user_id rcv) s)\<rparr>" and
    cs: "calls w = ref_calls Accounts (tx_from t) @ ref_calls Users (receiver t)
       @ [Find Accounts ''owner'' (user_id rcv), Find Users ''email'' admin_email,
          Find Accounts ''owner'' (owner clr),
          Update Accounts (acc_id clr) (Balance (balance clr + amount t)),
          Update Accounts (acc_id from) (Balance (balance from - amount t))]"
    by (rule initiate_okE)
  from nr obtain x where x: "docs0 (find_accounts_owner (user_id rcv) s) = Some x"
    by (cases "find_accounts_owner (user_id rcv) s") (auto simp: rejects_def docs0_def)
  then have mem: "x \<in> set (accounts s) \<and> owner x = user_id rcv"
    by (auto simp: find_accounts_owner_def dest: docs0_filter_mem)
  have "transactions (db w) = transactions s"
    by (simp add: update_account_balance_frame(2)[OF u2] update_account_balance_frame(2)[OF u1])
  with r x mem show ?thesis
    by (auto simp: a destination_def)
qed

theorem initiate_assigns_destination_witness:
  "initiateTransaction transfer bank = (Inr ok, snd (initiateTransaction transfer bank))
   \<and> resolve_user (receiver transfer) bank = Some bob
   \<and> preferredAccount bob = Some (Id ''a_bob'')
   \<and> tx_to (arg (snd (initiateTransaction transfer bank))) = Some (Id ''a_bob'')
   \<and> initiateTransaction refund bank = (Inr ok, snd (initiateTransaction refund bank))
   \<and> resolve_user (receiver refund) bank = Some alice
   \<and> preferredAccount alice = None
   \<and> find_accounts_owner ''u_alice'' bank = [alice_acc]
   \<and> tx_to (arg (snd (initiateTransaction refund bank))) = Some (Doc alice_acc)"
proof -
  have h1: "initiateTransaction transfer bank = (Inr ok, snd (initiateTransaction transfer bank))"
    by (rule prod_eqI) (simp_all add: run_defs store_defs example_defs)
  have h2: "initiateTransaction refund bank = (Inr ok, snd (initiateTransaction refund bank))"
    by (rule prod_eqI) (simp_all add: run_defs store_defs example_defs)
  have r1: "resolve_user (receiver transfer) bank = Some bob"
    and r2: "resolve_user (receiver refund) bank = Some alice"
    and accs: "find_accounts_owner ''u_alice'' bank = [alice_acc]"
    by (simp_all add: store_defs example_defs)
  have p1: "preferredAccount bob = Some (Id ''a_bob'')" and p2: "preferredAccount alice = None"
    and u2: "user_id alice = ''u_alice''"
    by (simp_all add: example_defs)
  from initiate_assigns_destination[OF h1]
  have t1: "tx_to (arg (snd (initiateTransaction transfer bank))) = Some (Id ''a_bob'')"
    by (auto simp: r1 p1)
  from initiate_assigns_destination[OF h2]
  have t2: "tx_to (arg (snd (initiateTransaction refund bank))) = Some (Doc alice_acc)"
    by (auto simp: r2 p2 u2 accs docs0_def)
  from h1 h2 r1 r2 p1 p2 accs t1 t2 show ?thesis by blast
qed

text \<open>
  The assignment is to the object in memory only: after the successful initiation of Alice's
  transfer the stored transaction still has no \<^verbatim>\<open>to\<close>.
\<close>

theorem initiate_destination_not_stored_counterexample:
  "fst (initiateTransaction transfer bank) = Inr ok
   \<and> tx_to (arg (snd (initiateTransaction transfer bank))) = Some (Id ''a_bob'')
   \<and> map_option tx_to (findByID_transaction ''tx1'' (db (snd (initiateTransaction transfer bank))))
       = Some None"
  by (simp add: run_defs store_defs example_defs ok_def)

text \<open>
  C7. A successful \<^verbatim>\<open>initiateTransaction\<close> leaves the source's stored balance at the resolved
  source's balance minus the amount, which is not negative. \<^verbatim>\<open>completeTransaction\<close> has no
  such guard: there is a store with no negative balance on which a successful completion
  leaves the clearing account below zero.
\<close>

theorem overdraft_guard_only_at_initiation:
  "(initiateTransaction t s = (Inr ok, w) \<longrightarrow>
      (\<exists>from. resolve_account (tx_from t) s = Some from
         \<and> balance_of (acc_id from) (db w) = Some (balance from - amount t)
         \<and> 0 \<le> balance from - amount t))
   \<and> (\<exists>t' s' clr.
        (\<forall>a \<in> set (accounts s'). 0 \<le> balance a)
        \<and> fst (completeTransaction t' s') = Inr ok
        \<and> clearing_account s' = Some clr
        \<and> balance_of (acc_id clr) (db (snd (completeTransaction t' s'))) = Some (balance clr - amount t')
        \<and> balance clr - amount t' < 0)"
proof (intro conjI impI)
  assume a: "initiateTransaction t s = (Inr ok, w)"
  then obtain "from" rcv clr s1 where
    f: "resolve_account (tx_from t) s = Some from" and
    r: "resolve_user (receiver t) s = Some rcv" and
    nr: "\<not> rejects from rcv t s" and
    c: "clearing_account s = Some clr" and
    u1: "update_account_balance (acc_id clr) (balance clr + amount t) s = Some s1" and
    u2: "update_account_balance (acc_id from) (balance from - amount t) s1 = Some (db w)" and
    a: "arg w = t\<lparr>tx_to := destination rcv (find_accounts_owner (user_id rcv) s)\<rparr>" and
    cs: "calls w = ref_calls Accounts (tx_from t) @ ref_calls Users (receiver t)
       @ [Find Accounts ''owner'' (user_id rcv), Find Users ''email'' admin_email,
          Find Accounts ''owner'' (owner clr),
          Update Accounts (acc_id clr) (Balance (balance clr + amount t)),
          Update Accounts (acc_id from) (Balance (balance from - amount t))]"
    by (rule initiate_okE)
  from nr have "0 \<le> balance from - amount t" by (simp add: rejects_def)
  with f show "\<exists>from. resolve_account (tx_from t) s = Some from
         \<and> balance_of (acc_id from) (db w) = Some (balance from - amount t)
         \<and> 0 \<le> balance from - amount t"
    by (simp add: balance_of_update[OF u2])
next
  let ?t = "transfer\<lparr>tx_to := Some (Id ''a_bob'')\<rparr>"
  let ?s = "bank\<lparr>accounts := [admin_acc\<lparr>balance := 0\<rparr>, alice_acc, bob_acc]\<rparr>"
  have "(\<forall>a \<in> set (accounts ?s). 0 \<le> balance a)
        \<and> fst (completeTransaction ?t ?s) = Inr ok
        \<and> clearing_account ?s = Some (admin_acc\<lparr>balance := 0\<rparr>)
        \<and> balance_of (acc_id (admin_acc\<lparr>balance := 0\<rparr>)) (db (snd (completeTransaction ?t ?s)))
            = Some (balance (admin_acc\<lparr>balance := 0\<rparr>) - amount ?t)
        \<and> balance (admin_acc\<lparr>balance := 0\<rparr>) - amount ?t < 0"
    by (simp add: run_defs store_defs example_defs ok_def)
  then show "\<exists>t' s' clr.
        (\<forall>a \<in> set (accounts s'). 0 \<le> balance a)
        \<and> fst (completeTransaction t' s') = Inr ok
        \<and> clearing_account s' = Some clr
        \<and> balance_of (acc_id clr) (db (snd (completeTransaction t' s'))) = Some (balance clr - amount t')
        \<and> balance clr - amount t' < 0"
    by blast
qed

theorem overdraft_guard_only_at_initiation_witness:
  "initiateTransaction (transfer\<lparr>amount := 1000\<rparr>) bank
     = (Inr ok, snd (initiateTransaction (transfer\<lparr>amount := 1000\<rparr>) bank))
   \<and> balance_of ''a_alice'' bank = Some 1000
   \<and> balance_of ''a_alice'' (db (snd (initiateTransaction (transfer\<lparr>amount := 1000\<rparr>) bank))) = Some 0"
proof -
  let ?t = "transfer\<lparr>amount := 1000\<rparr>"
  have h: "initiateTransaction ?t bank = (Inr ok, snd (initiateTransaction ?t bank))"
    by (rule prod_eqI) (simp_all add: run_defs store_defs example_defs)
  have f: "resolve_account (tx_from ?t) bank = Some alice_acc"
    and b: "balance_of ''a_alice'' bank = Some 1000"
    by (simp_all add: store_defs example_defs)
  have v: "acc_id alice_acc = ''a_alice''" "balance alice_acc - amount ?t = 0"
    by (simp_all add: example_defs)
  from overdraft_guard_only_at_initiation[of ?t bank "snd (initiateTransaction ?t bank)"] h
  have "\<exists>from. resolve_account (tx_from ?t) bank = Some from
         \<and> balance_of (acc_id from) (db (snd (initiateTransaction ?t bank)))
             = Some (balance from - amount ?t)"
    by blast
  with f have "balance_of ''a_alice'' (db (snd (initiateTransaction ?t bank))) = Some 0"
    using v by auto
  with h b show ?thesis by blast
qed


subsection \<open>Completion\<close>

text \<open>
  C4. A \<^verbatim>\<open>completeTransaction\<close> whose destination and clearing account resolve issues exactly
  two writes, in this order: the clearing account's balance is set to its balance minus the
  amount, then the destination's balance is set to the resolved destination's balance plus
  the amount. The call succeeds exactly when the destination is stored, which it is when
  \<^verbatim>\<open>transaction.to\<close> is an id. After a successful call the destination's stored balance is
  that sum, every account other than the two has its balance unchanged, and the clearing
  account's stored balance is that difference provided the destination is not the clearing
  account.
\<close>

theorem complete_writes_and_balances:
  assumes "resolve_to (tx_to t) s = Some to" and "clearing_account s = Some clr"
  shows "writes (calls (snd (completeTransaction t s))) =
           [Update Accounts (acc_id clr) (Balance (balance clr - amount t)),
            Update Accounts (acc_id to) (Balance (balance to + amount t))]
       \<and> (fst (completeTransaction t s) = Inr ok \<longleftrightarrow> findByID_account (acc_id to) s \<noteq> None)
       \<and> (fst (completeTransaction t s) = Inr ok \<longrightarrow>
            balance_of (acc_id to) (db (snd (completeTransaction t s))) = Some (balance to + amount t)
            \<and> (acc_id to \<noteq> acc_id clr \<longrightarrow>
                 balance_of (acc_id clr) (db (snd (completeTransaction t s)))
                   = Some (balance clr - amount t))
            \<and> (\<forall>j. j \<noteq> acc_id clr \<and> j \<noteq> acc_id to \<longrightarrow>
                 balance_of j (db (snd (completeTransaction t s))) = balance_of j s))
       \<and> (distinct (map acc_id (accounts s)) \<longrightarrow> balance_of (acc_id clr) s = Some (balance clr))
       \<and> (\<forall>i. tx_to t = Some (Id i) \<longrightarrow>
            acc_id to = i \<and> balance_of i s = Some (balance to)
            \<and> fst (completeTransaction t s) = Inr ok)"
proof -
  let ?r = "completeTransaction t s"
  from assms(1) obtain r where r: "tx_to t = Some r" and to: "resolve_account r s = Some to"
    by (auto simp: resolve_to_def split: option.splits)
  from assms(2) obtain u where u: "docs0 (find_users_email admin_email s) = Some u"
    and c: "docs0 (find_accounts_owner (user_id u) s) = Some clr"
    by (auto dest: clearing_account_owner)
  obtain s1 where s1: "update_account_balance (acc_id clr) (balance clr - amount t) s = Some s1"
    using clearing_account_stored[OF assms(2)] update_account_balance_defined by blast
  have stored1: "findByID_account (acc_id to) s1 = None \<longleftrightarrow> findByID_account (acc_id to) s = None"
    by (simp add: update_account_balance_frame(3)[OF s1])
  have w: "writes (calls (snd ?r)) =
           [Update Accounts (acc_id clr) (Balance (balance clr - amount t)),
            Update Accounts (acc_id to) (Balance (balance to + amount t))]"
    using r to u c s1 by (simp add: completeTransaction_unfold Let_def split: option.splits)
  have okiff: "fst ?r = Inr ok \<longleftrightarrow> findByID_account (acc_id to) s \<noteq> None"
  proof (cases "update_account_balance (acc_id to) (balance to + amount t) s1")
    case None
    with r to u c s1 have "fst ?r = Inl NotFound"
      by (simp add: completeTransaction_unfold Let_def)
    moreover from None have "findByID_account (acc_id to) s = None"
      by (simp add: update_account_balance_undefined stored1)
    ultimately show ?thesis by simp
  next
    case (Some s2)
    with r to u c s1 have "fst ?r = Inr ok"
      by (simp add: completeTransaction_unfold Let_def)
    moreover have "findByID_account (acc_id to) s \<noteq> None"
      using Some update_account_balance_undefined[of "acc_id to" "balance to + amount t" s1] stored1
      by auto
    ultimately show ?thesis by simp
  qed
  have bal: "balance_of j (db (snd ?r)) =
      (if j = acc_id to then Some (balance to + amount t)
       else if j = acc_id clr then Some (balance clr - amount t) else balance_of j s)"
    if "fst ?r = Inr ok" for j
  proof -
    from that okiff stored1 have "findByID_account (acc_id to) s1 \<noteq> None"
      by simp
    then obtain s2
      where s2: "update_account_balance (acc_id to) (balance to + amount t) s1 = Some s2"
      using update_account_balance_defined by blast
    with r to u c s1 have "db (snd ?r) = s2"
      by (simp add: completeTransaction_unfold Let_def)
    then show ?thesis
      by (simp add: balance_of_update[OF s2] balance_of_update[OF s1])
  qed
  have d: "balance_of (acc_id clr) s = Some (balance clr)" if "distinct (map acc_id (accounts s))"
    using that assms(2) by (rule clearing_account_balance)
  have i: "acc_id to = i \<and> balance_of i s = Some (balance to) \<and> fst ?r = Inr ok"
    if "tx_to t = Some (Id i)" for i
  proof -
    from that r to have ri: "resolve_account (Id i) s = Some to" by simp
    then have "findByID_account (acc_id to) s \<noteq> None"
      by (auto simp: resolve_account_def findByID_account_def find_Some_iff)
    with ri okiff show ?thesis by (simp add: resolve_account_Id)
  qed
  from bal have bal': "fst ?r = Inr ok \<longrightarrow>
            balance_of (acc_id to) (db (snd ?r)) = Some (balance to + amount t)
            \<and> (acc_id to \<noteq> acc_id clr \<longrightarrow>
                 balance_of (acc_id clr) (db (snd ?r)) = Some (balance clr - amount t))
            \<and> (\<forall>j. j \<noteq> acc_id clr \<and> j \<noteq> acc_id to \<longrightarrow>
                 balance_of j (db (snd ?r)) = balance_of j s)"
    by simp
  from w okiff bal' d i show ?thesis by blast
qed

theorem complete_writes_and_balances_witness:
  "resolve_to (tx_to (transfer\<lparr>tx_to := Some (Id ''a_bob'')\<rparr>)) bank = Some bob_acc
   \<and> clearing_account bank = Some admin_acc
   \<and> fst (completeTransaction (transfer\<lparr>tx_to := Some (Id ''a_bob'')\<rparr>) bank) = Inr ok
   \<and> writes (calls (snd (completeTransaction (transfer\<lparr>tx_to := Some (Id ''a_bob'')\<rparr>) bank)))
       = [Update Accounts ''a_admin'' (Balance 4600), Update Accounts ''a_bob'' (Balance 650)]
   \<and> balance_of ''a_admin'' bank = Some 5000
   \<and> balance_of ''a_admin'' (db (snd (completeTransaction (transfer\<lparr>tx_to := Some (Id ''a_bob'')\<rparr>) bank)))
       = Some 4600
   \<and> balance_of ''a_bob'' bank = Some 250
   \<and> balance_of ''a_bob'' (db (snd (completeTransaction (transfer\<lparr>tx_to := Some (Id ''a_bob'')\<rparr>) bank)))
       = Some 650
   \<and> balance_of ''a_alice'' (db (snd (completeTransaction (transfer\<lparr>tx_to := Some (Id ''a_bob'')\<rparr>) bank)))
       = balance_of ''a_alice'' bank"
proof -
  let ?t = "transfer\<lparr>tx_to := Some (Id ''a_bob'')\<rparr>"
  have h1: "resolve_to (tx_to ?t) bank = Some bob_acc"
    and h2: "clearing_account bank = Some admin_acc"
    and b: "balance_of ''a_admin'' bank = Some 5000" "balance_of ''a_bob'' bank = Some 250"
    by (simp_all add: store_defs resolve_to_def example_defs)
  have v: "acc_id bob_acc = ''a_bob''" "acc_id admin_acc = ''a_admin''"
    "balance bob_acc + amount transfer = 650" "balance admin_acc - amount transfer = 4600"
    by (simp_all add: example_defs)
  have st: "findByID_account ''a_bob'' bank \<noteq> None"
    by (simp add: store_defs resolve_to_def example_defs)
  from complete_writes_and_balances[OF h1 h2] st
  have res: "fst (completeTransaction ?t bank) = Inr ok"
    "writes (calls (snd (completeTransaction ?t bank)))
       = [Update Accounts ''a_admin'' (Balance 4600), Update Accounts ''a_bob'' (Balance 650)]"
    "balance_of ''a_admin'' (db (snd (completeTransaction ?t bank))) = Some 4600"
    "balance_of ''a_bob'' (db (snd (completeTransaction ?t bank))) = Some 650"
    "balance_of ''a_alice'' (db (snd (completeTransaction ?t bank))) = balance_of ''a_alice'' bank"
    by (simp_all add: v)
  from h1 h2 b res show ?thesis by blast
qed

text \<open>
  When the destination is the clearing account itself the second write overwrites the first:
  with 5000 on the clearing account and an amount of 400 it ends at 5400, not 4600.
\<close>

theorem complete_clearing_debit_counterexample:
  "resolve_to (tx_to (transfer\<lparr>tx_to := Some (Id ''a_admin'')\<rparr>)) bank = Some admin_acc
   \<and> clearing_account bank = Some admin_acc
   \<and> fst (completeTransaction (transfer\<lparr>tx_to := Some (Id ''a_admin'')\<rparr>) bank) = Inr ok
   \<and> amount (transfer\<lparr>tx_to := Some (Id ''a_admin'')\<rparr>) = 400
   \<and> balance_of ''a_admin'' bank = Some 5000
   \<and> balance_of ''a_admin'' (db (snd (completeTransaction (transfer\<lparr>tx_to := Some (Id ''a_admin'')\<rparr>) bank)))
       = Some 5400"
  by (simp add: run_defs store_defs resolve_to_def example_defs ok_def)


section \<open>Two calls in sequence\<close>

text \<open>
  The second call runs on the store the first one left and on the transaction object the
  first one was given, with whatever the first call assigned to it.
\<close>

lemma resolve_account_update:
  assumes "update_account_balance i v s = Some s'"
    and "resolve_account r s = Some a" and "acc_id a \<noteq> i"
  shows "resolve_account r s' = Some a"
  using assms(2,3)
  by (cases r) (auto simp: resolve_account_def update_account_balance_frame(3)[OF assms(1)])

text \<open>
  C5. Initiation followed by completion, both successful, on a store with unique account
  ids, where source, destination and clearing account are three different accounts and the
  resolved source and destination carry their stored balances: the source's balance is its
  balance before minus the amount, the destination's is its balance before plus the amount,
  the clearing account's is its balance before plus the amount and then minus the amount,
  and every other account's is what it was.
\<close>

theorem two_stage_transfer_balances:
  assumes init: "initiateTransaction t s = (Inr ok, w1)"
    and comp: "completeTransaction (arg w1) (db w1) = (Inr ok, w2)"
    and src: "resolve_account (tx_from t) s = Some from"
    and clr: "clearing_account s = Some clr"
    and dst: "resolve_to (tx_to (arg w1)) s = Some to"
    and apart: "acc_id from \<noteq> acc_id clr" "acc_id to \<noteq> acc_id clr" "acc_id to \<noteq> acc_id from"
    and ids: "distinct (map acc_id (accounts s))"
    and stored: "balance_of (acc_id from) s = Some (balance from)"
                "balance_of (acc_id to) s = Some (balance to)"
  shows "balance_of (acc_id from) (db w2) = Some (balance from - amount t)
       \<and> balance_of (acc_id to) (db w2) = Some (balance to + amount t)
       \<and> balance_of (acc_id clr) s = Some (balance clr)
       \<and> balance_of (acc_id clr) (db w2) = Some ((balance clr + amount t) - amount t)
       \<and> (\<forall>j. j \<noteq> acc_id from \<and> j \<noteq> acc_id to \<and> j \<noteq> acc_id clr \<longrightarrow>
             balance_of j (db w2) = balance_of j s)"
proof -
  from init obtain from' rcv clr' s1 where
    f: "resolve_account (tx_from t) s = Some from'" and
    r: "resolve_user (receiver t) s = Some rcv" and
    nr: "\<not> rejects from' rcv t s" and
    c: "clearing_account s = Some clr'" and
    u1: "update_account_balance (acc_id clr') (balance clr' + amount t) s = Some s1" and
    u2: "update_account_balance (acc_id from') (balance from' - amount t) s1 = Some (db w1)" and
    a: "arg w1 = t\<lparr>tx_to := destination rcv (find_accounts_owner (user_id rcv) s)\<rparr>" and
    cs: "calls w1 = ref_calls Accounts (tx_from t) @ ref_calls Users (receiver t)
       @ [Find Accounts ''owner'' (user_id rcv), Find Users ''email'' admin_email,
          Find Accounts ''owner'' (owner clr'),
          Update Accounts (acc_id clr') (Balance (balance clr' + amount t)),
          Update Accounts (acc_id from') (Balance (balance from' - amount t))]"
    by (rule initiate_okE)
  from f src have [simp]: "from' = from" by simp
  from c clr have [simp]: "clr' = clr" by simp
  have am: "amount (arg w1) = amount t" by (simp add: a)
  from comp obtain ref to' clr2 s3 where
    t1: "tx_to (arg w1) = Some ref" and
    t2: "resolve_account ref (db w1) = Some to'" and
    c2: "clearing_account (db w1) = Some clr2" and
    u3: "update_account_balance (acc_id clr2) (balance clr2 - amount (arg w1)) (db w1) = Some s3" and
    u4: "update_account_balance (acc_id to') (balance to' + amount (arg w1)) s3 = Some (db w2)" and
    a2: "arg w2 = arg w1" and
    cs2: "calls w2 = ref_calls Accounts ref
       @ [Find Users ''email'' admin_email, Find Accounts ''owner'' (owner clr2),
          Update Accounts (acc_id clr2) (Balance (balance clr2 - amount (arg w1))),
          Update Accounts (acc_id to') (Balance (balance to' + amount (arg w1)))]"
    by (rule complete_okE)
  from dst t1 have "resolve_account ref s = Some to"
    by (simp add: resolve_to_def)
  then have "resolve_account ref s1 = Some to"
    using u1 apart(2) by (simp add: resolve_account_update)
  then have "resolve_account ref (db w1) = Some to"
    using u2 apart(3) by (simp add: resolve_account_update)
  with t2 have [simp]: "to' = to" by simp
  have "clearing_account (db w1) = Some (clr\<lparr>balance := balance clr + amount t\<rparr>)"
    using apart(1) by (simp add: clearing_account_update[OF u2] clearing_account_update[OF u1] clr)
  with c2 have c2': "acc_id clr2 = acc_id clr" "balance clr2 = balance clr + amount t"
    by auto
  have "balance_of j (db w2) =
      (if j = acc_id to then Some (balance to + amount t)
       else if j = acc_id clr then Some ((balance clr + amount t) - amount t)
       else if j = acc_id from then Some (balance from - amount t)
       else balance_of j s)" for j
    using balance_of_update[OF u4, of j] balance_of_update[OF u3, of j]
      balance_of_update[OF u2, of j] balance_of_update[OF u1, of j]
    by (simp add: am c2')
  moreover have "balance_of (acc_id clr) s = Some (balance clr)"
    using ids clr by (rule clearing_account_balance)
  ultimately show ?thesis using apart by simp
qed

theorem two_stage_transfer_balances_witness:
  "initiateTransaction transfer populated_bank
     = (Inr ok, snd (initiateTransaction transfer populated_bank))
   \<and> tx_to (arg (snd (initiateTransaction transfer populated_bank))) = Some (Doc bob_acc)
   \<and> completeTransaction (arg (snd (initiateTransaction transfer populated_bank)))
         (db (snd (initiateTransaction transfer populated_bank)))
       = (Inr ok, snd (completeTransaction (arg (snd (initiateTransaction transfer populated_bank)))
                         (db (snd (initiateTransaction transfer populated_bank)))))
   \<and> balance_of ''a_alice'' populated_bank = Some 1000
   \<and> balance_of ''a_alice''
        (db (snd (completeTransaction (arg (snd (initiateTransaction transfer populated_bank)))
                    (db (snd (initiateTransaction transfer populated_bank)))))) = Some (1000 - 400)
   \<and> balance_of ''a_bob'' populated_bank = Some 250
   \<and> balance_of ''a_bob''
        (db (snd (completeTransaction (arg (snd (initiateTransaction transfer populated_bank)))
                    (db (snd (initiateTransaction transfer populated_bank)))))) = Some (250 + 400)
   \<and> balance_of ''a_admin'' populated_bank = Some 5000
   \<and> balance_of ''a_admin''
        (db (snd (completeTransaction (arg (snd (initiateTransaction transfer populated_bank)))
                    (db (snd (initiateTransaction transfer populated_bank))))))
       = Some ((5000 + 400) - 400)"
proof -
  let ?w1 = "snd (initiateTransaction transfer populated_bank)"
  let ?w2 = "snd (completeTransaction (arg ?w1) (db ?w1))"
  have w1: "?w1 = \<lparr>db = populated_bank\<lparr>accounts := [admin_acc\<lparr>balance := 5400\<rparr>,
                                              alice_acc\<lparr>balance := 600\<rparr>, bob_acc]\<rparr>,
                    arg = transfer\<lparr>tx_to := Some (Doc bob_acc)\<rparr>,
                    calls = [FindByID Accounts ''a_alice'', FindByID Users ''u_bob'',
                             Find Accounts ''owner'' ''u_bob'', Find Users ''email'' ''admin@glix.com'',
                             Find Accounts ''owner'' ''u_admin'',
                             Update Accounts ''a_admin'' (Balance 5400),
                             Update Accounts ''a_alice'' (Balance 600)]\<rparr>"
    by (simp add: run_defs store_defs populated_bank_def example_defs)
  have h1: "initiateTransaction transfer populated_bank = (Inr ok, ?w1)"
    by (rule prod_eqI) (simp_all add: run_defs store_defs populated_bank_def example_defs)
  have h2: "completeTransaction (arg ?w1) (db ?w1) = (Inr ok, ?w2)"
    unfolding w1
    by (rule prod_eqI) (simp_all add: run_defs store_defs populated_bank_def example_defs)
  have src: "resolve_account (tx_from transfer) populated_bank = Some alice_acc"
    and clr: "clearing_account populated_bank = Some admin_acc"
    and ids: "distinct (map acc_id (accounts populated_bank))"
    and bs: "balance_of ''a_alice'' populated_bank = Some 1000"
      "balance_of ''a_bob'' populated_bank = Some 250"
      "balance_of ''a_admin'' populated_bank = Some 5000"
    by (simp_all add: store_defs populated_bank_def example_defs)
  have to: "tx_to (arg ?w1) = Some (Doc bob_acc)"
    unfolding w1 by simp
  have dst: "resolve_to (tx_to (arg ?w1)) populated_bank = Some bob_acc"
    unfolding to by (simp add: resolve_to_def resolve_account_def)
  have v: "acc_id alice_acc = ''a_alice''" "acc_id bob_acc = ''a_bob''" "acc_id admin_acc = ''a_admin''"
    "balance alice_acc = 1000" "balance bob_acc = 250" "balance admin_acc = 5000"
    "amount transfer = 400"
    by (simp_all add: example_defs)
  have "balance_of ''a_alice'' (db ?w2) = Some (1000 - 400)
        \<and> balance_of ''a_bob'' (db ?w2) = Some (250 + 400)
        \<and> balance_of ''a_admin'' (db ?w2) = Some ((5000 + 400) - 400)"
    using two_stage_transfer_balances[OF h1 h2 src clr dst _ _ _ ids] bs
    by (simp add: v)
  with h1 h2 to bs show ?thesis by blast
qed

text \<open>
  Alice sends 400 to the admin, whose preferred account is the clearing account. The
  destination assigned is that account as read with the receiver, holding 5000. Both stages
  succeed; the clearing account, which is also the destination, goes from 5000 to 5400 and
  does not return to 5000.
\<close>

theorem two_stage_transfer_counterexample:
  "fst (initiateTransaction (transfer\<lparr>receiver := Id ''u_admin''\<rparr>) populated_bank) = Inr ok
   \<and> tx_to (arg (snd (initiateTransaction (transfer\<lparr>receiver := Id ''u_admin''\<rparr>) populated_bank)))
       = Some (Doc admin_acc)
   \<and> fst (completeTransaction
            (arg (snd (initiateTransaction (transfer\<lparr>receiver := Id ''u_admin''\<rparr>) populated_bank)))
            (db (snd (initiateTransaction (transfer\<lparr>receiver := Id ''u_admin''\<rparr>) populated_bank))))
       = Inr ok
   \<and> amount (transfer\<lparr>receiver := Id ''u_admin''\<rparr>) = 400
   \<and> clearing_account populated_bank = Some admin_acc
   \<and> balance_of ''a_admin'' populated_bank = Some 5000
   \<and> balance_of ''a_admin''
        (db (snd (initiateTransaction (transfer\<lparr>receiver := Id ''u_admin''\<rparr>) populated_bank)))
       = Some 5400
   \<and> balance_of ''a_admin''
        (db (snd (completeTransaction
            (arg (snd (initiateTransaction (transfer\<lparr>receiver := Id ''u_admin''\<rparr>) populated_bank)))
            (db (snd (initiateTransaction (transfer\<lparr>receiver := Id ''u_admin''\<rparr>) populated_bank))))))
       = Some 5400"
  by (simp add: run_defs store_defs populated_bank_def example_defs ok_def)

text \<open>
  C8. Two successful initiations in a row of a transaction whose \<^verbatim>\<open>from\<close> is an id, with a
  source that is not the clearing account: each call subtracts the amount from the source's
  balance as it reads it and adds the amount to the clearing account's balance as it reads
  it. The source ends at its balance before the first call minus the amount and minus the
  amount again, the clearing account at its balance plus the amount and plus the amount
  again.
\<close>

theorem repeated_initiation_balances:
  assumes ref: "tx_from t = Id i"
    and first: "initiateTransaction t s = (Inr ok, w1)"
    and second: "initiateTransaction (arg w1) (db w1) = (Inr ok, w2)"
    and clr: "clearing_account s = Some clr"
    and apart: "acc_id clr \<noteq> i"
    and before: "balance_of i s = Some b"
  shows "balance_of i (db w1) = Some (b - amount t)
       \<and> balance_of i (db w2) = Some ((b - amount t) - amount t)
       \<and> balance_of (acc_id clr) (db w1) = Some (balance clr + amount t)
       \<and> balance_of (acc_id clr) (db w2) = Some ((balance clr + amount t) + amount t)"
proof -
  from first obtain from1 rcv clr' s1 where
    f: "resolve_account (tx_from t) s = Some from1" and
    r: "resolve_user (receiver t) s = Some rcv" and
    nr: "\<not> rejects from1 rcv t s" and
    c: "clearing_account s = Some clr'" and
    u1: "update_account_balance (acc_id clr') (balance clr' + amount t) s = Some s1" and
    u2: "update_account_balance (acc_id from1) (balance from1 - amount t) s1 = Some (db w1)" and
    a: "arg w1 = t\<lparr>tx_to := destination rcv (find_accounts_owner (user_id rcv) s)\<rparr>" and
    cs: "calls w1 = ref_calls Accounts (tx_from t) @ ref_calls Users (receiver t)
       @ [Find Accounts ''owner'' (user_id rcv), Find Users ''email'' admin_email,
          Find Accounts ''owner'' (owner clr'),
          Update Accounts (acc_id clr') (Balance (balance clr' + amount t)),
          Update Accounts (acc_id from1) (Balance (balance from1 - amount t))]"
    by (rule initiate_okE)
  from c clr have [simp]: "clr' = clr" by simp
  from f ref before have f1: "acc_id from1 = i" "balance from1 = b"
    by (auto dest: resolve_account_Id)
  have am: "amount (arg w1) = amount t" and fr: "tx_from (arg w1) = Id i"
    by (simp_all add: a ref)
  from second obtain from2 rcv2 clr2 s3 where
    f2: "resolve_account (tx_from (arg w1)) (db w1) = Some from2" and
    r2: "resolve_user (receiver (arg w1)) (db w1) = Some rcv2" and
    nr2: "\<not> rejects from2 rcv2 (arg w1) (db w1)" and
    c2: "clearing_account (db w1) = Some clr2" and
    u3: "update_account_balance (acc_id clr2) (balance clr2 + amount (arg w1)) (db w1) = Some s3" and
    u4: "update_account_balance (acc_id from2) (balance from2 - amount (arg w1)) s3 = Some (db w2)" and
    a2: "arg w2 = (arg w1)\<lparr>tx_to := destination rcv2 (find_accounts_owner (user_id rcv2) (db w1))\<rparr>" and
    cs2: "calls w2 = ref_calls Accounts (tx_from (arg w1)) @ ref_calls Users (receiver (arg w1))
       @ [Find Accounts ''owner'' (user_id rcv2), Find Users ''email'' admin_email,
          Find Accounts ''owner'' (owner clr2),
          Update Accounts (acc_id clr2) (Balance (balance clr2 + amount (arg w1))),
          Update Accounts (acc_id from2) (Balance (balance from2 - amount (arg w1)))]"
    by (rule initiate_okE)
  have b1: "balance_of i (db w1) = Some (b - amount t)"
    using balance_of_update[OF u2, of i] by (simp add: f1)
  have c1: "balance_of (acc_id clr) (db w1) = Some (balance clr + amount t)"
    using balance_of_update[OF u2, of "acc_id clr"] balance_of_update[OF u1, of "acc_id clr"] apart
    by (simp add: f1)
  from f2 fr b1 have f2': "acc_id from2 = i" "balance from2 = b - amount t"
    by (auto dest: resolve_account_Id)
  have "clearing_account (db w1) = Some (clr\<lparr>balance := balance clr + amount t\<rparr>)"
    using apart by (simp add: clearing_account_update[OF u2] clearing_account_update[OF u1] clr f1)
  with c2 have c2': "acc_id clr2 = acc_id clr" "balance clr2 = balance clr + amount t"
    by auto
  have b2: "balance_of i (db w2) = Some ((b - amount t) - amount t)"
    using balance_of_update[OF u4, of i] by (simp add: am f2')
  have c3: "balance_of (acc_id clr) (db w2) = Some ((balance clr + amount t) + amount t)"
    using balance_of_update[OF u4, of "acc_id clr"] balance_of_update[OF u3, of "acc_id clr"] apart
    by (simp add: am c2' f2')
  from b1 b2 c1 c3 show ?thesis by blast
qed

theorem repeated_initiation_balances_witness:
  "tx_from transfer = Id ''a_alice''
   \<and> initiateTransaction transfer populated_bank
       = (Inr ok, snd (initiateTransaction transfer populated_bank))
   \<and> initiateTransaction (arg (snd (initiateTransaction transfer populated_bank)))
         (db (snd (initiateTransaction transfer populated_bank)))
       = (Inr ok, snd (initiateTransaction (arg (snd (initiateTransaction transfer populated_bank)))
                         (db (snd (initiateTransaction transfer populated_bank)))))
   \<and> amount transfer = 400
   \<and> balance_of ''a_alice'' populated_bank = Some 1000
   \<and> balance_of ''a_alice''
        (db (snd (initiateTransaction (arg (snd (initiateTransaction transfer populated_bank)))
                    (db (snd (initiateTransaction transfer populated_bank))))))
       = Some ((1000 - 400) - 400)
   \<and> balance_of ''a_admin'' populated_bank = Some 5000
   \<and> balance_of ''a_admin''
        (db (snd (initiateTransaction (arg (snd (initiateTransaction transfer populated_bank)))
                    (db (snd (initiateTransaction transfer populated_bank))))))
       = Some ((5000 + 400) + 400)"
proof -
  let ?w1 = "snd (initiateTransaction transfer populated_bank)"
  let ?w2 = "snd (initiateTransaction (arg ?w1) (db ?w1))"
  have w1: "?w1 = \<lparr>db = populated_bank\<lparr>accounts := [admin_acc\<lparr>balance := 5400\<rparr>,
                                              alice_acc\<lparr>balance := 600\<rparr>, bob_acc]\<rparr>,
                    arg = transfer\<lparr>tx_to := Some (Doc bob_acc)\<rparr>,
                    calls = [FindByID Accounts ''a_alice'', FindByID Users ''u_bob'',
                             Find Accounts ''owner'' ''u_bob'', Find Users ''email'' ''admin@glix.com'',
                             Find Accounts ''owner'' ''u_admin'',
                             Update Accounts ''a_admin'' (Balance 5400),
                             Update Accounts ''a_alice'' (Balance 600)]\<rparr>"
    by (simp add: run_defs store_defs populated_bank_def example_defs)
  have h0: "tx_from transfer = Id ''a_alice''"
    by (simp add: example_defs)
  have h1: "initiateTransaction transfer populated_bank = (Inr ok, ?w1)"
    by (rule prod_eqI) (simp_all add: run_defs store_defs populated_bank_def example_defs)
  have h2: "initiateTransaction (arg ?w1) (db ?w1) = (Inr ok, ?w2)"
    unfolding w1
    by (rule prod_eqI) (simp_all add: run_defs store_defs populated_bank_def example_defs)
  have clr: "clearing_account populated_bank = Some admin_acc"
    and apart: "acc_id admin_acc \<noteq> ''a_alice''"
    and bs: "balance_of ''a_alice'' populated_bank = Some 1000"
      "balance_of ''a_admin'' populated_bank = Some 5000"
    by (simp_all add: store_defs populated_bank_def example_defs)
  have v: "acc_id admin_acc = ''a_admin''" "balance admin_acc = 5000" "amount transfer = 400"
    by (simp_all add: example_defs)
  have "balance_of ''a_alice'' (db ?w2) = Some ((1000 - 400) - 400)
        \<and> balance_of ''a_admin'' (db ?w2) = Some ((5000 + 400) + 400)"
    using repeated_initiation_balances[OF h0 h1 h2 clr apart bs(1)] by (simp add: v)
  with h0 h1 h2 bs v(3) show ?thesis by blast
qed

text \<open>
  When \<^verbatim>\<open>from\<close> holds the account itself, the second call computes the debit from the
  balance that object carries, which the first call did not change: Alice's account goes
  from 1000 to 600 and stays at 600.
\<close>

theorem repeated_initiation_counterexample:
  "fst (initiateTransaction (transfer\<lparr>tx_from := Doc alice_acc\<rparr>) bank) = Inr ok
   \<and> fst (initiateTransaction
            (arg (snd (initiateTransaction (transfer\<lparr>tx_from := Doc alice_acc\<rparr>) bank)))
            (db (snd (initiateTransaction (transfer\<lparr>tx_from := Doc alice_acc\<rparr>) bank)))) = Inr ok
   \<and> amount (transfer\<lparr>tx_from := Doc alice_acc\<rparr>) = 400
   \<and> balance_of ''a_alice'' bank = Some 1000
   \<and> balance_of ''a_alice''
        (db (snd (initiateTransaction
            (arg (snd (initiateTransaction (transfer\<lparr>tx_from := Doc alice_acc\<rparr>) bank)))
            (db (snd (initiateTransaction (transfer\<lparr>tx_from := Doc alice_acc\<rparr>) bank))))))
       = Some 600"
  by (simp add: run_defs store_defs example_defs ok_def)

end
